theory Spec2Isabelle
  imports Complex_Main
begin

chapter \<open>The model\<close>

section \<open>JavaScript strings\<close>

text \<open>
  Strings are byte lists. The string methods the service calls are modelled on ASCII:
  \<open>toLowerCase\<close> maps \<open>A\<close>..\<open>Z\<close> to \<open>a\<close>..\<open>z\<close>, \<open>trim\<close> strips the ASCII white space
  (tab, line feed, vertical tab, form feed, carriage return, space) from both ends.
\<close>

definition isUpper :: "char \<Rightarrow> bool" where
  "isUpper c = (65 \<le> (of_char c :: nat) \<and> (of_char c :: nat) \<le> 90)"

definition toLowerChar :: "char \<Rightarrow> char" where
  "toLowerChar c = (if isUpper c then char_of ((of_char c :: nat) + 32) else c)"

definition toLowerCase :: "string \<Rightarrow> string" where
  "toLowerCase s = map toLowerChar s"

definition isSpace :: "char \<Rightarrow> bool" where
  "isSpace c = ((of_char c :: nat) \<in> {9, 10, 11, 12, 13, 32})"

definition trim :: "string \<Rightarrow> string" where
  "trim s = rev (dropWhile isSpace (rev (dropWhile isSpace s)))"

fun startsWith :: "string \<Rightarrow> string \<Rightarrow> bool" where
  "startsWith s [] = True"
| "startsWith [] (p # ps) = False"
| "startsWith (c # cs) (p # ps) = (c = p \<and> startsWith cs ps)"

definition endsWith :: "string \<Rightarrow> string \<Rightarrow> bool" where
  "endsWith s suf = startsWith (rev s) (rev suf)"

fun includesStr :: "string \<Rightarrow> string \<Rightarrow> bool" where
  "includesStr [] sub = (sub = [])"
| "includesStr (c # cs) sub = (startsWith (c # cs) sub \<or> includesStr cs sub)"

text \<open>\<open>s.split(sep)\<close> for a one-character separator: never the empty list.\<close>

fun split :: "char \<Rightarrow> string \<Rightarrow> string list" where
  "split sep [] = [[]]"
| "split sep (c # cs) =
     (if c = sep then [] # split sep cs
      else (case split sep cs of
              w # ws \<Rightarrow> (c # w) # ws
            | [] \<Rightarrow> [[c]]))"

section \<open>The URL class\<close>

text \<open>
  \<open>new URL(s)\<close> belongs to the JavaScript runtime, not to the repository. The service reads
  two things of a parsed URL: \<open>hostname\<close> and \<open>searchParams.get(name)\<close>. The parser is a
  parameter \<open>newURL\<close> of every function that calls it; \<open>None\<close> is the \<open>TypeError\<close> it
  throws on a string that is not a URL.
\<close>

record url =
  hostname :: string
  searchParams :: "(string \<times> string) list"

type_synonym url_parser = "string \<Rightarrow> url option"

definition searchParams_get :: "url \<Rightarrow> string \<Rightarrow> string option" where
  "searchParams_get u name = map_of (searchParams u) name"

section \<open>Domain Normalizer\<close>

text \<open>
  \<open>normalizeShopDomain\<close> (shopifyService.js, lines 11-34). The argument is a string
  (\<open>String(rawDomain)\<close> is then the identity, and \<open>!rawDomain\<close> holds of the empty string
  only); \<open>None\<close> is the \<open>null\<close> the function returns for an invalid domain.
  \<open>parseHost\<close> is the \<open>try\<close> block, \<open>defaultSuffix\<close> the bare-subdomain step.
\<close>

definition platformSuffix :: string where
  "platformSuffix = ''.myshopify.com''"

definition parseHost :: "url_parser \<Rightarrow> string \<Rightarrow> string option" where
  "parseHost newURL trimmed =
     (case (if includesStr trimmed ''://'' then newURL trimmed
            else newURL (''https://'' @ trimmed)) of
        None \<Rightarrow> None
      | Some u \<Rightarrow> Some (toLowerCase (hostname u)))"

definition defaultSuffix :: "string \<Rightarrow> string" where
  "defaultSuffix host =
     (if host \<noteq> [] \<and> \<not> includesStr host ''.'' then host @ platformSuffix else host)"

definition normalizeShopDomain :: "url_parser \<Rightarrow> string \<Rightarrow> string option" where
  "normalizeShopDomain newURL rawDomain =
     (if rawDomain = [] then None
      else case parseHost newURL (trim rawDomain) of
             None \<Rightarrow> None
           | Some host0 \<Rightarrow>
               (let host = defaultSuffix host0
                in if \<not> endsWith host platformSuffix then None else Some host))"

text \<open>
  A fixture parser for concrete runs. It knows the spellings of one shop's admin URL, a
  bare subdomain, a storefront domain, a second shop, and the page URLs of the first shop's
  order listing. It knows one URL of a scheme that is not a web scheme, \<open>foo:\<close>, whose host
  the URL standard keeps as it is written, percent escape and capitals included, while the
  host of an \<open>https:\<close> URL is percent-decoded and lowercased. Any other string is not a URL
  for it.
\<close>

definition fixturePageURL :: "string \<Rightarrow> string" where
  "fixturePageURL cursor =
     ''https://acme-store.myshopify.com/admin/api/2024-10/orders.json?limit=250&page_info='' @ cursor"

definition fixtureURL :: url_parser where
  "fixtureURL s =
     (if s = ''https://Acme-Store.MyShopify.com/admin'' \<or> s = ''https://acme-store.myshopify.com''
      then Some \<lparr>hostname = ''acme-store.myshopify.com'', searchParams = []\<rparr>
      else if s = ''https://acme-store''
      then Some \<lparr>hostname = ''acme-store'', searchParams = []\<rparr>
      else if s = ''https://shop.example.com''
      then Some \<lparr>hostname = ''shop.example.com'', searchParams = []\<rparr>
      else if s = ''foo://X%41.myshopify.com''
      then Some \<lparr>hostname = ''X%41.myshopify.com'', searchParams = []\<rparr>
      else if s = ''https://x%41.myshopify.com''
      then Some \<lparr>hostname = ''xa.myshopify.com'', searchParams = []\<rparr>
      else if s = ''https://xa.myshopify.com''
      then Some \<lparr>hostname = ''xa.myshopify.com'', searchParams = []\<rparr>
      else if s = ''https://revoked-store.myshopify.com''
      then Some \<lparr>hostname = ''revoked-store.myshopify.com'', searchParams = []\<rparr>
      else if s = fixturePageURL []
      then Some \<lparr>hostname = ''acme-store.myshopify.com'',
                  searchParams = [(''limit'', ''250''), (''page_info'', [])]\<rparr>
      else if s = fixturePageURL ''p1''
      then Some \<lparr>hostname = ''acme-store.myshopify.com'',
                  searchParams = [(''limit'', ''250''), (''page_info'', ''p1'')]\<rparr>
      else if s = fixturePageURL ''p2''
      then Some \<lparr>hostname = ''acme-store.myshopify.com'',
                  searchParams = [(''limit'', ''250''), (''page_info'', ''p2'')]\<rparr>
      else if s = fixturePageURL ''p3''
      then Some \<lparr>hostname = ''acme-store.myshopify.com'',
                  searchParams = [(''limit'', ''250''), (''page_info'', ''p3'')]\<rparr>
      else None)"

section \<open>JavaScript values\<close>

text \<open>
  A raw record is what \<open>JSON.parse\<close> gives: a JavaScript value. An object is the list of
  its own properties, in order, each name once. A number is a double: finite, \<open>NaN\<close> or
  an infinity (\<open>Infinity True\<close> is the negative one).
\<close>

datatype num = NaN | Finite real | Infinity bool

datatype jsval =
    JUndefined
  | JNull
  | JBool bool
  | JNum num
  | JStr string
  | JArr "jsval list"
  | JObj "(string \<times> jsval) list"

text \<open>
  A thrown \<open>Error\<close> object: its message and the \<open>status\<close> property that
  \<open>buildShopifyError\<close> sets (\<open>None\<close> when the property is undefined). A \<open>TypeError\<close> raised
  by the engine has no status; the text of its message is not modelled.
\<close>

record thrown =
  message :: string
  status :: "nat option"

definition TypeError :: thrown where
  "TypeError = \<lparr>message = ''TypeError'', status = None\<rparr>"

text \<open>Truthiness, as \<open>!v\<close>, \<open>v ? a : b\<close> and \<open>v || w\<close> test it.\<close>

fun truthy :: "jsval \<Rightarrow> bool" where
  "truthy JUndefined = False"
| "truthy JNull = False"
| "truthy (JBool b) = b"
| "truthy (JNum n) = (n \<noteq> NaN \<and> n \<noteq> Finite 0)"
| "truthy (JStr s) = (s \<noteq> [])"
| "truthy (JArr xs) = True"
| "truthy (JObj fs) = True"

definition nullish :: "jsval \<Rightarrow> bool" where
  "nullish v = (v = JUndefined \<or> v = JNull)"

text \<open>
  \<open>getProp v p\<close> is \<open>v.p\<close> for a value \<open>v\<close> that is neither \<open>null\<close> nor \<open>undefined\<close> (reading
  a property of those throws, which every caller checks first): an own property of an object,
  \<open>undefined\<close> otherwise. None of the property names the service reads is a name that strings,
  numbers, arrays or \<open>Object.prototype\<close> define.
\<close>

fun getProp :: "jsval \<Rightarrow> string \<Rightarrow> jsval" where
  "getProp (JObj fs) p = (case map_of fs p of None \<Rightarrow> JUndefined | Some v \<Rightarrow> v)"
| "getProp v p = JUndefined"

text \<open>
  The conversions \<open>Number(v)\<close> and \<open>String(v)\<close> are the runtime's; the mappers take them
  as parameters. Either can throw: on an object, or an array that holds one, whose own
  \<open>toString\<close> or \<open>valueOf\<close> property is not a function, the conversion ends in a
  \<open>TypeError\<close>. On a primitive value neither throws, which \<open>primitiveSafe\<close> says of a
  runtime.
\<close>

record runtime =
  js_Number :: "jsval \<Rightarrow> thrown + num"
  js_String :: "jsval \<Rightarrow> thrown + string"

fun primitive :: "jsval \<Rightarrow> bool" where
  "primitive (JArr xs) = False"
| "primitive (JObj fs) = False"
| "primitive v = True"

definition returns :: "thrown + 'a \<Rightarrow> bool" where
  "returns m = (case m of Inl e \<Rightarrow> False | Inr a \<Rightarrow> True)"

definition primitiveSafe :: "runtime \<Rightarrow> bool" where
  "primitiveSafe rt = (\<forall>v. primitive v \<longrightarrow> returns (js_Number rt v) \<and> returns (js_String rt v))"

text \<open>Evaluation in sequence: the first throw ends it.\<close>

definition andThen :: "thrown + 'a \<Rightarrow> ('a \<Rightarrow> thrown + 'b) \<Rightarrow> thrown + 'b" where
  "andThen m f = (case m of Inl e \<Rightarrow> Inl e | Inr a \<Rightarrow> f a)"

text \<open>\<open>xs.map(f)\<close> for an \<open>f\<close> that can throw.\<close>

fun mapAll :: "('a \<Rightarrow> thrown + 'b) \<Rightarrow> 'a list \<Rightarrow> thrown + 'b list" where
  "mapAll f [] = Inr []"
| "mapAll f (x # xs) =
     (case f x of
        Inl e \<Rightarrow> Inl e
      | Inr d \<Rightarrow> (case mapAll f xs of Inl e \<Rightarrow> Inl e | Inr ds \<Rightarrow> Inr (d # ds)))"

section \<open>Resource Mapper\<close>

text \<open>\<open>toNumber\<close> (lines 36-40); \<open>JUndefined\<close> is the absent value.\<close>

definition toNumber :: "runtime \<Rightarrow> jsval \<Rightarrow> thrown + jsval" where
  "toNumber rt v =
     (if v = JNull \<or> v = JUndefined \<or> v = JStr [] then Inr JUndefined
      else andThen (js_Number rt v) (\<lambda>n. Inr (if n = NaN then JUndefined else JNum n)))"

text \<open>
  \<open>normalizeTags\<close> (lines 42-49). \<open>t.trim()\<close> on an array element is a call of the string
  method: an element that is not a string has no such method, or no properties at all, and
  the call throws a \<open>TypeError\<close>.
\<close>

fun trimElement :: "jsval \<Rightarrow> thrown + string" where
  "trimElement (JStr s) = Inr (trim s)"
| "trimElement t = Inl TypeError"

definition filterBoolean :: "string list \<Rightarrow> string list" where
  "filterBoolean ss = filter (\<lambda>s. s \<noteq> []) ss"

definition normalizeTags :: "runtime \<Rightarrow> jsval \<Rightarrow> thrown + jsval" where
  "normalizeTags rt tags =
     (if \<not> truthy tags then Inr (JArr [])
      else case tags of
             JArr ts \<Rightarrow> andThen (mapAll trimElement ts) (\<lambda>ss. Inr (JArr (map JStr (filterBoolean ss))))
           | _ \<Rightarrow> andThen (js_String rt tags)
                    (\<lambda>s. Inr (JArr (map JStr (filterBoolean (map trim (split CHR '','' s)))))))"

text \<open>
  \<open>(xs || []).map(f)\<close>: the items of an array, none for a falsy value, and a \<open>TypeError\<close>
  for any other value, which has no \<open>map\<close> method.
\<close>

definition orEmptyMap :: "(jsval \<Rightarrow> thrown + jsval) \<Rightarrow> jsval \<Rightarrow> thrown + jsval" where
  "orEmptyMap f v =
     (if \<not> truthy v then Inr (JArr [])
      else case v of
             JArr xs \<Rightarrow> andThen (mapAll f xs) (\<lambda>ys. Inr (JArr ys))
           | _ \<Rightarrow> Inl TypeError)"

text \<open>\<open>v ? String(v) : undefined\<close>\<close>

definition stringIfTruthy :: "runtime \<Rightarrow> jsval \<Rightarrow> thrown + jsval" where
  "stringIfTruthy rt v =
     (if truthy v then andThen (js_String rt v) (\<lambda>s. Inr (JStr s)) else Inr JUndefined)"

text \<open>
  The three \<open>map\<close> functions of \<open>resourceConfig\<close> (lines 155-237). The tenant id \<open>shopId\<close>
  is copied into the document as it is. A document is the object literal the source
  builds: every key is there, an absent value is \<open>undefined\<close>. The properties are evaluated
  in the order of the literal; reading a property of a \<open>null\<close> record throws.
\<close>

definition customers_map :: "runtime \<Rightarrow> jsval \<Rightarrow> jsval \<Rightarrow> thrown + jsval" where
  "customers_map rt customer shopId =
     (if nullish customer then Inl TypeError
      else
        andThen (js_String rt (getProp customer ''id'')) (\<lambda>shopifyId.
        andThen (normalizeTags rt (getProp customer ''tags'')) (\<lambda>tags.
        andThen (toNumber rt (getProp customer ''total_spent'')) (\<lambda>totalSpent.
          Inr (JObj
               [(''shop'', shopId),
                (''shopifyId'', JStr shopifyId),
                (''email'', getProp customer ''email''),
                (''phone'', getProp customer ''phone''),
                (''firstName'', getProp customer ''first_name''),
                (''lastName'', getProp customer ''last_name''),
                (''tags'', tags),
                (''totalSpent'', totalSpent),
                (''state'', getProp customer ''state''),
                (''country'',
                   (if nullish (getProp customer ''default_address'') then JUndefined
                    else getProp (getProp customer ''default_address'') ''country_code'')),
                (''marketingOptInLevel'', getProp customer ''marketing_opt_in_level''),
                (''shopifyCreatedAt'', getProp customer ''created_at''),
                (''shopifyUpdatedAt'', getProp customer ''updated_at'')])))))"

definition orderCustomer :: "runtime \<Rightarrow> jsval \<Rightarrow> thrown + jsval" where
  "orderCustomer rt c =
     (if truthy c
      then andThen (js_String rt (getProp c ''id'')) (\<lambda>id. Inr (JObj
        [(''id'', JStr id),
         (''email'', getProp c ''email''),
         (''firstName'', getProp c ''first_name''),
         (''lastName'', getProp c ''last_name'')]))
      else Inr JUndefined)"

definition lineItem_map :: "runtime \<Rightarrow> jsval \<Rightarrow> thrown + jsval" where
  "lineItem_map rt li =
     (if nullish li then Inl TypeError
      else
        andThen (js_String rt (getProp li ''id'')) (\<lambda>shopifyId.
        andThen (stringIfTruthy rt (getProp li ''product_id'')) (\<lambda>productId.
        andThen (stringIfTruthy rt (getProp li ''variant_id'')) (\<lambda>variantId.
        andThen (toNumber rt (getProp li ''price'')) (\<lambda>price.
          Inr (JObj
            [(''shopifyId'', JStr shopifyId),
             (''productId'', productId),
             (''variantId'', variantId),
             (''name'', getProp li ''name''),
             (''quantity'', getProp li ''quantity''),
             (''price'', price)]))))))"

definition orders_map :: "runtime \<Rightarrow> jsval \<Rightarrow> jsval \<Rightarrow> thrown + jsval" where
  "orders_map rt order shopId =
     (if nullish order then Inl TypeError
      else
        andThen (js_String rt (getProp order ''id'')) (\<lambda>shopifyId.
        andThen (toNumber rt (getProp order ''total_price'')) (\<lambda>totalPrice.
        andThen (toNumber rt (getProp order ''subtotal_price'')) (\<lambda>subtotalPrice.
        andThen (toNumber rt (getProp order ''total_discounts'')) (\<lambda>totalDiscounts.
        andThen (normalizeTags rt (getProp order ''tags'')) (\<lambda>tags.
        andThen (orderCustomer rt (getProp order ''customer'')) (\<lambda>customer.
        andThen (orEmptyMap (lineItem_map rt) (getProp order ''line_items'')) (\<lambda>lineItems.
          Inr (JObj
               [(''shop'', shopId),
                (''shopifyId'', JStr shopifyId),
                (''name'', getProp order ''name''),
                (''email'', getProp order ''email''),
                (''currency'', getProp order ''currency''),
                (''totalPrice'', totalPrice),
                (''subtotalPrice'', subtotalPrice),
                (''totalDiscounts'', totalDiscounts),
                (''financialStatus'', getProp order ''financial_status''),
                (''fulfillmentStatus'', getProp order ''fulfillment_status''),
                (''processedAt'', getProp order ''processed_at''),
                (''tags'', tags),
                (''customer'', customer),
                (''lineItems'', lineItems),
                (''shopifyCreatedAt'', getProp order ''created_at''),
                (''shopifyUpdatedAt'', getProp order ''updated_at'')])))))))))"

definition variant_map :: "runtime \<Rightarrow> jsval \<Rightarrow> thrown + jsval" where
  "variant_map rt variant =
     (if nullish variant then Inl TypeError
      else
        andThen (js_String rt (getProp variant ''id'')) (\<lambda>shopifyId.
        andThen (toNumber rt (getProp variant ''price'')) (\<lambda>price.
          Inr (JObj
            [(''shopifyId'', JStr shopifyId),
             (''title'', getProp variant ''title''),
             (''sku'', getProp variant ''sku''),
             (''price'', price),
             (''inventoryQuantity'', getProp variant ''inventory_quantity'')]))))"

definition products_map :: "runtime \<Rightarrow> jsval \<Rightarrow> jsval \<Rightarrow> thrown + jsval" where
  "products_map rt product shopId =
     (if nullish product then Inl TypeError
      else
        andThen (js_String rt (getProp product ''id'')) (\<lambda>shopifyId.
        andThen (normalizeTags rt (getProp product ''tags'')) (\<lambda>tags.
        andThen (orEmptyMap (variant_map rt) (getProp product ''variants'')) (\<lambda>variants.
          Inr (JObj
               [(''shop'', shopId),
                (''shopifyId'', JStr shopifyId),
                (''title'', getProp product ''title''),
                (''status'', getProp product ''status''),
                (''productType'', getProp product ''product_type''),
                (''vendor'', getProp product ''vendor''),
                (''tags'', tags),
                (''variants'', variants),
                (''shopifyCreatedAt'', getProp product ''created_at''),
                (''shopifyUpdatedAt'', getProp product ''updated_at'')])))))"

text \<open>
  The records on which a mapper is sure to return, whatever the runtime: every value it
  converts is a primitive. A \<open>tags\<close> value is a primitive or an array of strings; a
  \<open>line_items\<close> or \<open>variants\<close> value is falsy, or an array of items of the item's shape.
  \<open>monetaryAbsent\<close> holds of the values \<open>toNumber\<close> maps to absent.
\<close>

fun isString :: "jsval \<Rightarrow> bool" where
  "isString (JStr s) = True"
| "isString v = False"

definition tagsShape :: "jsval \<Rightarrow> bool" where
  "tagsShape v = (case v of JArr ts \<Rightarrow> list_all isString ts | _ \<Rightarrow> primitive v)"

definition itemsShape :: "(jsval \<Rightarrow> bool) \<Rightarrow> jsval \<Rightarrow> bool" where
  "itemsShape itemShape v =
     (if truthy v then (case v of JArr xs \<Rightarrow> list_all itemShape xs | _ \<Rightarrow> False) else True)"

definition items :: "jsval \<Rightarrow> jsval list" where
  "items v = (case v of JArr xs \<Rightarrow> xs | _ \<Rightarrow> [])"

definition lineItemShape :: "jsval \<Rightarrow> bool" where
  "lineItemShape li =
     (\<not> nullish li \<and> primitive (getProp li ''id'') \<and> primitive (getProp li ''product_id'')
      \<and> primitive (getProp li ''variant_id'') \<and> primitive (getProp li ''price''))"

definition variantShape :: "jsval \<Rightarrow> bool" where
  "variantShape v = (\<not> nullish v \<and> primitive (getProp v ''id'') \<and> primitive (getProp v ''price''))"

definition customerShape :: "jsval \<Rightarrow> bool" where
  "customerShape c =
     (\<not> nullish c \<and> primitive (getProp c ''id'') \<and> tagsShape (getProp c ''tags'')
      \<and> primitive (getProp c ''total_spent''))"

definition orderShape :: "jsval \<Rightarrow> bool" where
  "orderShape ord =
     (\<not> nullish ord \<and> primitive (getProp ord ''id'')
      \<and> primitive (getProp ord ''total_price'') \<and> primitive (getProp ord ''subtotal_price'')
      \<and> primitive (getProp ord ''total_discounts'') \<and> tagsShape (getProp ord ''tags'')
      \<and> primitive (getProp (getProp ord ''customer'') ''id'')
      \<and> itemsShape lineItemShape (getProp ord ''line_items''))"

definition productShape :: "jsval \<Rightarrow> bool" where
  "productShape p =
     (\<not> nullish p \<and> primitive (getProp p ''id'') \<and> tagsShape (getProp p ''tags'')
      \<and> itemsShape variantShape (getProp p ''variants''))"

definition monetaryAbsent :: "runtime \<Rightarrow> jsval \<Rightarrow> bool" where
  "monetaryAbsent rt v =
     (v = JUndefined \<or> v = JNull \<or> v = JStr [] \<or> js_Number rt v = Inr NaN)"

text \<open>
  A fixture runtime for concrete runs: \<open>Number\<close> and \<open>String\<close> on the few values the
  fixtures hold, as the engine computes them there. An object whose own \<open>toString\<close> is
  the number 1 cannot be converted.
\<close>

definition fixtureNumber :: "jsval \<Rightarrow> thrown + num" where
  "fixtureNumber v =
     (case v of
        JNum n \<Rightarrow> Inr n
      | JStr s \<Rightarrow> Inr (if s = ''19.99'' then Finite 19.99
                       else if s = ''5'' then Finite 5
                       else NaN)
      | JObj fs \<Rightarrow> (if map_of fs ''toString'' = Some (JNum (Finite 1)) then Inl TypeError else Inr NaN)
      | _ \<Rightarrow> Inr NaN)"

definition fixtureString :: "jsval \<Rightarrow> thrown + string" where
  "fixtureString v =
     (case v of
        JStr s \<Rightarrow> Inr s
      | JNum n \<Rightarrow> Inr (if n = Finite 1001 then ''1001''
                       else if n = Finite 1002 then ''1002''
                       else if n = Finite 7 then ''7''
                       else ''NaN'')
      | JNull \<Rightarrow> Inr ''null''
      | JObj fs \<Rightarrow> (if map_of fs ''toString'' = Some (JNum (Finite 1)) then Inl TypeError
                    else Inr ''[object Object]'')
      | _ \<Rightarrow> Inr ''undefined'')"

definition fixtureRuntime :: runtime where
  "fixtureRuntime = \<lparr>js_Number = fixtureNumber, js_String = fixtureString\<rparr>"

text \<open>
  Fixtures: an order with one line item; records on which a mapper throws; items whose
  quantity is not a number.
\<close>

definition fixtureOrder :: jsval where
  "fixtureOrder = JObj
     [(''id'', JNum (Finite 1001)),
      (''total_price'', JStr ''19.99''),
      (''subtotal_price'', JStr []),
      (''total_discounts'', JStr ''n/a''),
      (''tags'', JStr ''vip, ,gift''),
      (''line_items'', JArr
         [JObj [(''id'', JNum (Finite 7)), (''quantity'', JNum (Finite 5)), (''price'', JStr ''19.99'')]])]"

definition fixtureOrderNullItem :: jsval where
  "fixtureOrderNullItem = JObj [(''id'', JNum (Finite 1001)), (''line_items'', JArr [JNull])]"

definition fixtureCustomerNumericTag :: jsval where
  "fixtureCustomerNumericTag = JObj [(''id'', JNum (Finite 7)), (''tags'', JArr [JNum (Finite 5)])]"

definition fixtureCustomerObjectId :: jsval where
  "fixtureCustomerObjectId = JObj [(''id'', JObj [(''toString'', JNum (Finite 1))])]"

definition fixtureLineItemTextQuantity :: jsval where
  "fixtureLineItemTextQuantity = JObj [(''id'', JNum (Finite 7)), (''quantity'', JStr ''lots'')]"

definition fixtureVariantEmptyQuantity :: jsval where
  "fixtureVariantEmptyQuantity = JObj [(''id'', JNum (Finite 7)), (''inventory_quantity'', JStr [])]"

section \<open>Upsert Writer\<close>

text \<open>
  A collection of the document store is the list of its records; a record, like a mapped
  document, is a list of fields. \<open>Model.bulkWrite\<close> is the persistence library's; what is
  modelled of it is what \<open>upsertDocuments\<close> (lines 239-252) asks for: for each document
  one \<open>updateOne\<close> with the filter \<open>{shop, shopifyId}\<close>, the update \<open>{$set: doc}\<close> and
  \<open>upsert: true\<close>, in one unordered bulk write.

  Before anything is sent, the library casts each operation against the schema of the
  model. \<open>castUpdate\<close> is that step, a parameter: for a model and a document, the fields
  that \<open>$set\<close> will write (values converted to the schema's types, fields the library
  leaves out, such as those with the value \<open>undefined\<close>, left out, fields it adds, such as
  the update time, added), or \<open>None\<close> when the filter or a value cannot be cast. An operation
  that cannot be cast is not performed; a library for which \<open>rejectOnCastError\<close> holds
  performs none of the batch then, and the call throws. The operations that are sent run in
  list order, and the store performs each of them.
\<close>

datatype kind = Customers | Orders | Products

type_synonym doc = "(string \<times> jsval) list"
type_synonym collection = "doc list"

record persistence =
  castUpdate :: "kind \<Rightarrow> doc \<Rightarrow> doc option"
  rejectOnCastError :: bool

definition CastError :: thrown where
  "CastError = \<lparr>message = ''CastError'', status = None\<rparr>"

definition ownFields :: "jsval \<Rightarrow> doc" where
  "ownFields v = (case v of JObj fs \<Rightarrow> fs | _ \<Rightarrow> [])"

definition docField :: "doc \<Rightarrow> string \<Rightarrow> jsval" where
  "docField d k = (case map_of d k of None \<Rightarrow> JUndefined | Some v \<Rightarrow> v)"

text \<open>The filter \<open>{shop: doc.shop, shopifyId: doc.shopifyId}\<close> compares this pair.\<close>

definition docKey :: "doc \<Rightarrow> jsval \<times> jsval" where
  "docKey d = (docField d ''shop'', docField d ''shopifyId'')"

fun setField :: "string \<Rightarrow> jsval \<Rightarrow> doc \<Rightarrow> doc" where
  "setField k v [] = [(k, v)]"
| "setField k v ((k', v') # r) =
     (if k' = k then (k, v) # r else (k', v') # setField k v r)"

text \<open>
  \<open>$set\<close>: the fields of the update are written into the record, whose other fields stay.
\<close>

fun applySet :: "doc \<Rightarrow> doc \<Rightarrow> doc" where
  "applySet [] r = r"
| "applySet ((k, v) # upd) r = applySet upd (setField k v r)"

text \<open>
  The first record the filter matches is updated; \<open>None\<close> when no record matches. The
  flag tells whether the update changed the record (\<open>modifiedCount\<close> counts only those).
\<close>

fun updateFirst :: "(doc \<Rightarrow> bool) \<Rightarrow> (doc \<Rightarrow> doc) \<Rightarrow> collection \<Rightarrow> (collection \<times> bool) option" where
  "updateFirst m f [] = None"
| "updateFirst m f (r # rs) =
     (if m r then Some (f r # rs, f r \<noteq> r)
      else (case updateFirst m f rs of
              None \<Rightarrow> None
            | Some (rs', changed) \<Rightarrow> Some (r # rs', changed)))"

record bulkResult =
  upsertedCount :: nat
  modifiedCount :: nat
  matchedCount :: nat

definition noWrites :: bulkResult where
  "noWrites = \<lparr>upsertedCount = 0, modifiedCount = 0, matchedCount = 0\<rparr>"

text \<open>
  One \<open>updateOne\<close> with \<open>upsert: true\<close>, for the document \<open>d\<close> (whose key is the filter) and
  its cast update \<open>u\<close>. With no match a record is inserted: the fields of the filter, then
  the \<open>$set\<close>.
\<close>

definition updateOne :: "doc \<Rightarrow> doc \<Rightarrow> collection \<times> bulkResult \<Rightarrow> collection \<times> bulkResult" where
  "updateOne d u st =
     (case updateFirst (\<lambda>r. docKey r = docKey d) (applySet u) (fst st) of
        Some (coll', changed) \<Rightarrow>
          (coll', (snd st)\<lparr>matchedCount := matchedCount (snd st) + 1,
                          modifiedCount := modifiedCount (snd st) + (if changed then 1 else 0)\<rparr>)
      | None \<Rightarrow>
          (fst st @ [applySet u [(''shop'', docField d ''shop''), (''shopifyId'', docField d ''shopifyId'')]],
           (snd st)\<lparr>upsertedCount := upsertedCount (snd st) + 1\<rparr>))"

text \<open>The operations of a batch that can be cast, each with its cast update.\<close>

fun castable :: "persistence \<Rightarrow> kind \<Rightarrow> doc list \<Rightarrow> (doc \<times> doc) list" where
  "castable p model [] = []"
| "castable p model (d # ds) =
     (case castUpdate p model d of
        None \<Rightarrow> castable p model ds
      | Some u \<Rightarrow> (d, u) # castable p model ds)"

definition bulkWrite :: "(doc \<times> doc) list \<Rightarrow> collection \<Rightarrow> collection \<times> bulkResult" where
  "bulkWrite ops coll = foldl (\<lambda>st op. updateOne (fst op) (snd op) st) (coll, noWrites) ops"

text \<open>
  \<open>upsertDocuments\<close>: the collection after the call, and the number returned or the error
  thrown.
\<close>

definition upsertDocuments ::
  "persistence \<Rightarrow> kind \<Rightarrow> collection \<Rightarrow> doc list \<Rightarrow> collection \<times> (thrown + nat)" where
  "upsertDocuments p model coll docs =
     (if docs = [] then (coll, Inr 0)
      else if rejectOnCastError p \<and> list_ex (\<lambda>d. castUpdate p model d = None) docs
      then (coll, Inl CastError)
      else (let (coll', result) = bulkWrite (castable p model docs) coll
            in (coll', Inr (upsertedCount result + modifiedCount result + matchedCount result))))"

text \<open>The records of a collection under the key of a document.\<close>

definition recordsOf :: "doc \<Rightarrow> collection \<Rightarrow> doc list" where
  "recordsOf d coll = filter (\<lambda>r. docKey r = docKey d) coll"

text \<open>
  A cast update that keeps the key of its document: its field names are distinct, both
  parts of the key are among them, and they are the document's.
\<close>

definition keepsKey :: "doc \<Rightarrow> doc \<Rightarrow> bool" where
  "keepsKey d u =
     (distinct (map fst u) \<and> docField u ''shop'' \<noteq> JUndefined \<and> docField u ''shopifyId'' \<noteq> JUndefined
      \<and> docKey u = docKey d)"

text \<open>
  A document of a batch that changes a record: the library can cast it, the cast update
  keeps its key, and the collection has a record of that key which the \<open>$set\<close> changes.
\<close>

definition changesExisting :: "persistence \<Rightarrow> kind \<Rightarrow> collection \<Rightarrow> doc \<Rightarrow> bool" where
  "changesExisting p model coll d =
     (case castUpdate p model d of
        None \<Rightarrow> False
      | Some u \<Rightarrow> keepsKey d u \<and> list_ex (\<lambda>r. docKey r = docKey d \<and> applySet u r \<noteq> r) coll)"

text \<open>The document a mapper returned, as the writer takes it.\<close>

fun mapped :: "thrown + jsval \<Rightarrow> doc" where
  "mapped (Inr v) = ownFields v"
| "mapped (Inl e) = []"

text \<open>
  A fixture library: it leaves out the fields whose value is \<open>undefined\<close>, and it cannot
  cast an order with a line item whose quantity is the text \<open>lots\<close> to the schema, where a
  quantity is a number. It drops what it cannot cast.
\<close>

definition textQuantity :: "jsval \<Rightarrow> bool" where
  "textQuantity item = (getProp item ''quantity'' = JStr ''lots'')"

definition fixtureCast :: "kind \<Rightarrow> doc \<Rightarrow> doc option" where
  "fixtureCast model d =
     (if list_ex textQuantity (items (docField d ''lineItems'')) then None
      else Some (filter (\<lambda>kv. snd kv \<noteq> JUndefined) d))"

definition fixturePersistence :: persistence where
  "fixturePersistence = \<lparr>castUpdate = fixtureCast, rejectOnCastError = False\<rparr>"

text \<open>
  Fixtures: one customer as the platform sends it twice, the second time with its
  \<open>total_spent\<close> empty; one order sent twice, the second time with another total and a
  quantity that is a text; a product collection of two records.
\<close>

definition fixtureShopId :: jsval where
  "fixtureShopId = JStr ''shop-1''"

definition fixtureCustomerV1 :: jsval where
  "fixtureCustomerV1 = JObj
     [(''id'', JNum (Finite 7)), (''email'', JStr ''ada@example.com''), (''total_spent'', JStr ''19.99'')]"

definition fixtureCustomerV2 :: jsval where
  "fixtureCustomerV2 = JObj
     [(''id'', JNum (Finite 7)), (''email'', JStr ''ada@example.com''), (''total_spent'', JStr [])]"

definition fixtureOrderTextQuantity :: jsval where
  "fixtureOrderTextQuantity = JObj
     [(''id'', JNum (Finite 1001)),
      (''total_price'', JStr ''5''),
      (''line_items'', JArr
         [JObj [(''id'', JNum (Finite 7)), (''quantity'', JStr ''lots''), (''price'', JStr ''5'')]])]"

definition fixtureProductRecords :: collection where
  "fixtureProductRecords =
     [[(''shop'', fixtureShopId), (''shopifyId'', JStr ''1001''), (''title'', JStr ''Mug'')],
      [(''shop'', fixtureShopId), (''shopifyId'', JStr ''1002''), (''title'', JStr ''Cup'')]]"

section \<open>Tenants, requests and responses\<close>

text \<open>
  The \<open>Shop\<close> model (models/Shop.js), with the fields the synchronization engine reads or
  writes. \<open>metadata\<close> is a map of strings, \<open>None\<close> while it was never set; times are
  numbers.
\<close>

datatype shop_status = Active | Paused

record shop =
  shop_id :: jsval
  ownerEmail :: "string option"
  shopDomain :: string
  accessToken :: string
  apiVersion :: "string option"
  shop_status :: shop_status
  lastSyncedAt :: "nat option"
  metadata :: "(string \<times> string) list option"

text \<open>
  One \<open>GET\<close> of the client that \<open>clientForShop\<close> builds (lines 51-65): the base URL, the
  access token header (\<open>None\<close> when \<open>shop.accessToken\<close> is undefined, and no header is
  sent), the path, and the query parameters in the order of the object literal. The HTTP transport is a collaborator: a function from the request to the response
  or to the failure \<open>axios\<close> rejects with, of which \<open>buildShopifyError\<close> reads the status,
  the status text and the detail (the body's errors, or the message).
\<close>

record request =
  baseURL :: string
  token :: "string option"
  path :: string
  query :: "(string \<times> jsval) list"

record response =
  data :: jsval
  link :: "string option"

record failure =
  failure_status :: "nat option"
  failure_statusText :: "string option"
  failure_detail :: string

type_synonym transport = "request \<Rightarrow> failure + response"

definition DEFAULT_API_VERSION :: string where
  "DEFAULT_API_VERSION = ''2024-10''"

definition dquote :: char where
  "dquote = CHR 0x22"

definition invalidDomainError :: thrown where
  "invalidDomainError =
     \<lparr>message = ''Invalid shop domain. Provide a hostname like '' @ [dquote]
                  @ ''your-store.myshopify.com'' @ [dquote] @ ''.'',
      status = None\<rparr>"

text \<open>Decimal digits of a number, as \<open>String(n)\<close> and a template literal print it.\<close>

fun showNat :: "nat \<Rightarrow> string" where
  "showNat n =
     (if n < 10 then [char_of (48 + n)]
      else showNat (n div 10) @ [char_of (48 + n mod 10)])"

text \<open>
  \<open>buildShopifyError\<close> (lines 80-104): the message is the summary line and the hint,
  the empty one dropped, joined by \<open>" - "\<close> and trimmed; the status is the response's.
\<close>

definition statusHint :: "nat option \<Rightarrow> string" where
  "statusHint st =
     (if st = Some 404
      then ''Verify the shop domain is the Admin hostname (e.g. your-store.myshopify.com) and the token has access.''
      else if st = Some 401 \<or> st = Some 403
      then ''Check the Admin API token and scopes for customers/orders/products.''
      else [])"

definition buildShopifyError :: "failure \<Rightarrow> string \<Rightarrow> string \<Rightarrow> thrown" where
  "buildShopifyError err domain resourcePath =
     (let st = failure_status err;
          summary = ''Shopify '' @ (case st of None \<Rightarrow> [] | Some n \<Rightarrow> if n = 0 then [] else showNat n)
                    @ '' '' @ (case failure_statusText err of None \<Rightarrow> [] | Some t \<Rightarrow> t)
                    @ '' for '' @ domain @ '' '' @ resourcePath @ '': '' @ failure_detail err;
          hint = statusHint st
      in \<lparr>message = trim (if hint = [] then summary else summary @ '' - '' @ hint),
          status = st\<rparr>)"

section \<open>Paginator\<close>

text \<open>
  \<open>parsePageInfo\<close> (lines 67-78). The header is \<open>None\<close> when the response has none.
  \<open>nextEntry\<close> is the first comma-separated part that contains \<open>rel="next"\<close>,
  \<open>entryURL\<close> its text before the first semicolon, trimmed, without angle brackets.
\<close>

definition relNext :: string where
  "relNext = ''rel='' @ [dquote] @ ''next'' @ [dquote]"

definition nextEntry :: "string \<Rightarrow> string option" where
  "nextEntry linkHeader = find (\<lambda>part. includesStr part relNext) (split CHR '','' linkHeader)"

definition entryURL :: "string \<Rightarrow> string" where
  "entryURL nextLink =
     filter (\<lambda>c. c \<noteq> CHR ''<'' \<and> c \<noteq> CHR ''>'')
       (trim (case split CHR '';'' nextLink of p # ps \<Rightarrow> p | [] \<Rightarrow> []))"

definition parsePageInfo :: "url_parser \<Rightarrow> string option \<Rightarrow> string option" where
  "parsePageInfo newURL linkHeader =
     (case linkHeader of
        None \<Rightarrow> None
      | Some h \<Rightarrow>
          if h = [] then None
          else case nextEntry h of
                 None \<Rightarrow> None
               | Some nextLink \<Rightarrow>
                   (case newURL (entryURL nextLink) of
                      None \<Rightarrow> None
                    | Some u \<Rightarrow> searchParams_get u ''page_info''))"

text \<open>\<open>pageInfo\<close> as a condition: a cursor that is a non-empty string.\<close>

definition hasCursor :: "string option \<Rightarrow> bool" where
  "hasCursor pageInfo = (case pageInfo of None \<Rightarrow> False | Some c \<Rightarrow> c \<noteq> [])"

text \<open>
  The request of one page: \<open>{limit: 250, ...params, ...(pageInfo ? {page_info: pageInfo} : {})}\<close>;
  a later key replaces the value of an earlier one.
\<close>

definition pageQuery :: "(string \<times> jsval) list \<Rightarrow> string option \<Rightarrow> (string \<times> jsval) list" where
  "pageQuery params pageInfo =
     (let q = foldl (\<lambda>acc kv. setField (fst kv) (snd kv) acc) [(''limit'', JNum (Finite 250))] params
      in case pageInfo of
           None \<Rightarrow> q
         | Some c \<Rightarrow> if c = [] then q else setField ''page_info'' (JStr c) q)"

definition pageRequest :: "shop \<Rightarrow> string \<Rightarrow> string \<Rightarrow> (string \<times> jsval) list \<Rightarrow> string option \<Rightarrow> request" where
  "pageRequest sh domain resourcePath params pageInfo =
     \<lparr>baseURL = ''https://'' @ domain @ ''/admin/api/''
                 @ (case apiVersion sh of None \<Rightarrow> DEFAULT_API_VERSION
                    | Some v \<Rightarrow> if v = [] then DEFAULT_API_VERSION else v) @ ''/'',
      token = Some (accessToken sh),
      path = resourcePath @ ''.json'',
      query = pageQuery params pageInfo\<rparr>"

text \<open>
  \<open>response.data[dataKey] || []\<close>, spread into \<open>records.push\<close>: the elements of an array,
  the characters of a string, nothing for a falsy value. Reading a property of a \<open>null\<close>
  body and spreading a value that is not iterable throw inside the \<open>try\<close>; the \<open>catch\<close>
  hands that error, which has no response, to \<open>buildShopifyError\<close>.
\<close>

definition engineFailure :: failure where
  "engineFailure = \<lparr>failure_status = None, failure_statusText = None, failure_detail = message TypeError\<rparr>"

definition pagePayload :: "jsval \<Rightarrow> string \<Rightarrow> failure + jsval list" where
  "pagePayload body dataKey =
     (if nullish body then Inl engineFailure
      else (let v = getProp body dataKey
            in if \<not> truthy v then Inr []
               else case v of
                      JArr xs \<Rightarrow> Inr xs
                    | JStr s \<Rightarrow> Inr (map (\<lambda>c. JStr [c]) s)
                    | _ \<Rightarrow> Inl engineFailure))"

text \<open>
  The \<open>do ... while (pageInfo)\<close> loop of \<open>fetchPaginatedResource\<close> (lines 134-150). Nothing
  bounds the number of pages, so the loop is a partial function: \<open>None\<close> is a run that never
  ends. A run that ends gives the requests it issued, in order, and the records or the
  error thrown.
\<close>

partial_function (option) fetchPages ::
  "url_parser \<Rightarrow> transport \<Rightarrow> shop \<Rightarrow> string \<Rightarrow> string \<Rightarrow> string \<Rightarrow> (string \<times> jsval) list
     \<Rightarrow> jsval list \<Rightarrow> request list \<Rightarrow> string option \<Rightarrow> (request list \<times> (thrown + jsval list)) option" where
  "fetchPages newURL http sh domain resourcePath dataKey params records issued pageInfo =
     (case http (pageRequest sh domain resourcePath params pageInfo) of
        Inl err \<Rightarrow>
          Some (issued @ [pageRequest sh domain resourcePath params pageInfo],
                Inl (buildShopifyError err domain resourcePath))
      | Inr resp \<Rightarrow>
          (case pagePayload (data resp) dataKey of
             Inl err \<Rightarrow>
               Some (issued @ [pageRequest sh domain resourcePath params pageInfo],
                     Inl (buildShopifyError err domain resourcePath))
           | Inr payload \<Rightarrow>
               if hasCursor (parsePageInfo newURL (link resp))
               then fetchPages newURL http sh domain resourcePath dataKey params
                      (records @ payload)
                      (issued @ [pageRequest sh domain resourcePath params pageInfo])
                      (parsePageInfo newURL (link resp))
               else Some (issued @ [pageRequest sh domain resourcePath params pageInfo],
                          Inr (records @ payload))))"

declare fetchPages.simps [code]

text \<open>
  \<open>fetchPaginatedResource\<close> (lines 128-153): \<open>clientForShop\<close> throws on a domain the
  normalizer rejects, before any request.
\<close>

definition fetchPaginatedResource ::
  "url_parser \<Rightarrow> transport \<Rightarrow> shop \<Rightarrow> string \<Rightarrow> string \<Rightarrow> (string \<times> jsval) list
     \<Rightarrow> (request list \<times> (thrown + jsval list)) option" where
  "fetchPaginatedResource newURL http sh resourcePath dataKey params =
     (case normalizeShopDomain newURL (shopDomain sh) of
        None \<Rightarrow> Some ([], Inl invalidDomainError)
      | Some domain \<Rightarrow> fetchPages newURL http sh domain resourcePath dataKey params [] [] None)"



text \<open>
  The three-page fixture: an order listing of 250, 250 and 10 records. The first response
  links to the next page, the second to the previous and the next one, the third to the
  previous one only. Any other request is answered with 404.
\<close>

definition fixtureShop :: shop where
  "fixtureShop =
     \<lparr>shop_id = fixtureShopId, ownerEmail = None, shopDomain = ''acme-store.myshopify.com'',
      accessToken = ''shpat_fixture'', apiVersion = None, shop_status = Active,
      lastSyncedAt = None, metadata = None\<rparr>"

definition fixtureOrderRecord :: "nat \<Rightarrow> jsval" where
  "fixtureOrderRecord i = JObj [(''id'', JNum (Finite (real i)))]"

definition fixturePage1 :: "jsval list" where
  "fixturePage1 = map fixtureOrderRecord [0..<250]"

definition fixturePage2 :: "jsval list" where
  "fixturePage2 = map fixtureOrderRecord [250..<500]"

definition fixturePage3 :: "jsval list" where
  "fixturePage3 = map fixtureOrderRecord [500..<510]"

definition relPrevious :: string where
  "relPrevious = ''rel='' @ [dquote] @ ''previous'' @ [dquote]"

definition fixtureLink1 :: string where
  "fixtureLink1 = ''<'' @ fixturePageURL ''p2'' @ ''>; '' @ relNext"

definition fixtureLink2 :: string where
  "fixtureLink2 = ''<'' @ fixturePageURL ''p1'' @ ''>; '' @ relPrevious @ '', <''
                  @ fixturePageURL ''p3'' @ ''>; '' @ relNext"

definition fixtureLink3 :: string where
  "fixtureLink3 = ''<'' @ fixturePageURL ''p2'' @ ''>; '' @ relPrevious"

definition fixtureResponse1 :: response where
  "fixtureResponse1 = \<lparr>data = JObj [(''orders'', JArr fixturePage1)], link = Some fixtureLink1\<rparr>"

definition fixtureResponse2 :: response where
  "fixtureResponse2 = \<lparr>data = JObj [(''orders'', JArr fixturePage2)], link = Some fixtureLink2\<rparr>"

definition fixtureResponse3 :: response where
  "fixtureResponse3 = \<lparr>data = JObj [(''orders'', JArr fixturePage3)], link = Some fixtureLink3\<rparr>"

definition notFound :: failure where
  "notFound = \<lparr>failure_status = Some 404, failure_statusText = Some ''Not Found'',
               failure_detail = ''Not Found''\<rparr>"

definition fixtureTransport :: transport where
  "fixtureTransport r =
     (if path r \<noteq> ''orders.json'' then Inl notFound
      else case map_of (query r) ''page_info'' of
             None \<Rightarrow> Inr fixtureResponse1
           | Some c \<Rightarrow>
               if c = JStr ''p2'' then Inr fixtureResponse2
               else if c = JStr ''p3'' then Inr fixtureResponse3
               else Inl notFound)"






section \<open>The document store\<close>

text \<open>
  The three resource collections and the \<open>Event\<close> collection (models/Event.js). An event
  is written once and never changed. The writes of the store succeed.
\<close>

record event =
  event_shop :: jsval
  event_topic :: string
  event_payload :: jsval

record store =
  customers :: collection
  orders :: collection
  products :: collection
  events :: "event list"

definition emptyStore :: store where
  "emptyStore = \<lparr>customers = [], orders = [], products = [], events = []\<rparr>"

section \<open>Webhook Normalizer\<close>

text \<open>
  \<open>handleWebhook\<close> (lines 271-304). The result is \<open>{handled: true, type}\<close> or
  \<open>{handled: false}\<close>; an error thrown by a mapper or by the writer leaves the function
  after the event was created.
\<close>

datatype webhook_result = Handled string | Unhandled

definition handleWebhook ::
  "persistence \<Rightarrow> runtime \<Rightarrow> string \<Rightarrow> jsval \<Rightarrow> shop \<Rightarrow> store \<Rightarrow> store \<times> (thrown + webhook_result)" where
  "handleWebhook p rt topic payload sh st0 =
     (let normalizedTopic = toLowerCase topic;
          st = st0\<lparr>events := events st0 @
                  [\<lparr>event_shop = shop_id sh, event_topic = normalizedTopic, event_payload = payload\<rparr>]\<rparr>
      in if startsWith normalizedTopic ''customers/'' then
           (case customers_map rt payload (shop_id sh) of
              Inl e \<Rightarrow> (st, Inl e)
            | Inr doc \<Rightarrow>
                (case upsertDocuments p Customers (customers st) [ownFields doc] of
                   (coll, Inl e) \<Rightarrow> (st\<lparr>customers := coll\<rparr>, Inl e)
                 | (coll, Inr n) \<Rightarrow> (st\<lparr>customers := coll\<rparr>, Inr (Handled ''customer''))))
         else if startsWith normalizedTopic ''orders/'' then
           (case orders_map rt payload (shop_id sh) of
              Inl e \<Rightarrow> (st, Inl e)
            | Inr doc \<Rightarrow>
                (case upsertDocuments p Orders (orders st) [ownFields doc] of
                   (coll, Inl e) \<Rightarrow> (st\<lparr>orders := coll\<rparr>, Inl e)
                 | (coll, Inr n) \<Rightarrow> (st\<lparr>orders := coll\<rparr>, Inr (Handled ''order''))))
         else if startsWith normalizedTopic ''products/'' then
           (case products_map rt payload (shop_id sh) of
              Inl e \<Rightarrow> (st, Inl e)
            | Inr doc \<Rightarrow>
                (case upsertDocuments p Products (products st) [ownFields doc] of
                   (coll, Inl e) \<Rightarrow> (st\<lparr>products := coll\<rparr>, Inl e)
                 | (coll, Inr n) \<Rightarrow> (st\<lparr>products := coll\<rparr>, Inr (Handled ''product''))))
         else if startsWith normalizedTopic ''carts/'' \<or> startsWith normalizedTopic ''checkouts/''
                 \<or> includesStr normalizedTopic ''abandon'' \<or> includesStr normalizedTopic ''cart''
         then (st, Inr (Handled ''event-only''))
         else (st, Inr Unhandled))"

section \<open>Custom events\<close>

text \<open>
  The \<open>POST /:shopId\<close> route of the events router (routes/events.js, lines 28-50). The
  lookups of the request are inputs: whether the id is a valid object id, the shop found
  under it, the caller's email. \<open>topic\<close> is a value of the JSON body: a string has the
  method \<open>toLowerCase\<close>, any other truthy value has not, and calling it throws. The result
  is the HTTP status sent, or the error thrown.
\<close>

definition eventsPost ::
  "bool \<Rightarrow> shop option \<Rightarrow> string \<Rightarrow> jsval \<Rightarrow> jsval \<Rightarrow> jsval \<Rightarrow> store \<Rightarrow> store \<times> (thrown + nat)" where
  "eventsPost validId found userEmail shopId topic payload st =
     (if \<not> validId then (st, Inr 400)
      else case found of
             None \<Rightarrow> (st, Inr 404)
           | Some sh \<Rightarrow>
               if (case ownerEmail sh of None \<Rightarrow> False | Some owner \<Rightarrow> owner \<noteq> [] \<and> owner \<noteq> userEmail)
               then (st, Inr 403)
               else if \<not> truthy topic then (st, Inr 400)
               else case topic of
                      JStr t \<Rightarrow>
                        (st\<lparr>events := events st @
                              [\<lparr>event_shop = shopId, event_topic = toLowerCase t, event_payload = payload\<rparr>]\<rparr>,
                         Inr 201)
                    | _ \<Rightarrow> (st, Inl TypeError))"

section \<open>Sync Orchestrator\<close>

text \<open>
  \<open>resourceConfig[resource]\<close> (line 257). \<open>resourceConfig\<close> is an object literal with the
  three own keys; a lookup of any other name goes on to \<open>Object.prototype\<close>, whose
  properties are functions or objects, all truthy, none with a \<open>path\<close>, \<open>dataKey\<close>,
  \<open>params\<close>, \<open>model\<close> or \<open>map\<close> property.
\<close>

datatype config = Own kind | Inherited | Absent

definition objectPrototypeKeys :: "string list" where
  "objectPrototypeKeys =
     [''constructor'', ''__proto__'', ''hasOwnProperty'', ''isPrototypeOf'', ''propertyIsEnumerable'',
      ''toLocaleString'', ''toString'', ''valueOf'', ''__defineGetter__'', ''__defineSetter__'',
      ''__lookupGetter__'', ''__lookupSetter__'']"

definition resourceConfig :: "string \<Rightarrow> config" where
  "resourceConfig resource =
     (if resource = ''customers'' then Own Customers
      else if resource = ''orders'' then Own Orders
      else if resource = ''products'' then Own Products
      else if resource \<in> set objectPrototypeKeys then Inherited
      else Absent)"

fun config_path :: "kind \<Rightarrow> string" where
  "config_path Customers = ''customers''"
| "config_path Orders = ''orders''"
| "config_path Products = ''products''"

fun config_dataKey :: "kind \<Rightarrow> string" where
  "config_dataKey Customers = ''customers''"
| "config_dataKey Orders = ''orders''"
| "config_dataKey Products = ''products''"

fun config_params :: "kind \<Rightarrow> (string \<times> jsval) list" where
  "config_params Orders = [(''status'', JStr ''any'')]"
| "config_params k = []"

fun config_map :: "kind \<Rightarrow> runtime \<Rightarrow> jsval \<Rightarrow> jsval \<Rightarrow> thrown + jsval" where
  "config_map Customers = customers_map"
| "config_map Orders = orders_map"
| "config_map Products = products_map"

fun modelOf :: "kind \<Rightarrow> store \<Rightarrow> collection" where
  "modelOf Customers st = customers st"
| "modelOf Orders st = orders st"
| "modelOf Products st = products st"

fun setModel :: "kind \<Rightarrow> collection \<Rightarrow> store \<Rightarrow> store" where
  "setModel Customers c st = st\<lparr>customers := c\<rparr>"
| "setModel Orders c st = st\<lparr>orders := c\<rparr>"
| "setModel Products c st = st\<lparr>products := c\<rparr>"

text \<open>
  The summary object: an entry per key, \<open>{pulled, saved}\<close> or
  \<open>{error: 'unsupported resource'}\<close>; assigning to a key that is there replaces its entry.
\<close>

datatype entry = Synced nat nat | Unsupported

type_synonym summary = "(string \<times> entry) list"

fun setEntry :: "string \<Rightarrow> entry \<Rightarrow> summary \<Rightarrow> summary" where
  "setEntry k v [] = [(k, v)]"
| "setEntry k v ((k', v') # s) = (if k' = k then (k, v) # s else (k', v') # setEntry k v s)"

text \<open>
  \<open>syncShopResources\<close> (lines 254-269), the loop over the requested kinds. \<open>None\<close> is a
  run that never ends, because a pagination never does. For an inherited property the
  configuration's fields are \<open>undefined\<close>: the path of the request is \<open>undefined.json\<close>,
  the records are read under the key \<open>undefined\<close>, and \<open>config.map\<close> is not a function,
  which throws as soon as there is a record to map; with no record, \<open>upsertDocuments\<close> returns
  0 for the empty list. Assigning to \<open>summary['__proto__']\<close> adds no key.
\<close>

fun syncLoop ::
  "url_parser \<Rightarrow> transport \<Rightarrow> persistence \<Rightarrow> runtime \<Rightarrow> shop \<Rightarrow> string list \<Rightarrow> summary \<Rightarrow> store
     \<Rightarrow> (store \<times> (thrown + summary)) option" where
  "syncLoop newURL http p rt sh [] summary st = Some (st, Inr summary)"
| "syncLoop newURL http p rt sh (resource # rest) summary st =
     (case resourceConfig resource of
        Absent \<Rightarrow>
          syncLoop newURL http p rt sh rest (setEntry resource Unsupported summary) st
      | Inherited \<Rightarrow>
          (case fetchPaginatedResource newURL http sh ''undefined'' ''undefined'' [] of
             None \<Rightarrow> None
           | Some (issued, Inl e) \<Rightarrow> Some (st, Inl e)
           | Some (issued, Inr raw) \<Rightarrow>
               if raw \<noteq> [] then Some (st, Inl TypeError)
               else syncLoop newURL http p rt sh rest
                      (if resource = ''__proto__'' then summary
                       else setEntry resource (Synced 0 0) summary) st)
      | Own k \<Rightarrow>
          (case fetchPaginatedResource newURL http sh (config_path k) (config_dataKey k) (config_params k) of
             None \<Rightarrow> None
           | Some (issued, Inl e) \<Rightarrow> Some (st, Inl e)
           | Some (issued, Inr raw) \<Rightarrow>
               (case mapAll (\<lambda>item. config_map k rt item (shop_id sh)) raw of
                  Inl e \<Rightarrow> Some (st, Inl e)
                | Inr docs \<Rightarrow>
                    (case upsertDocuments p k (modelOf k st) (map ownFields docs) of
                       (coll, Inl e) \<Rightarrow> Some (setModel k coll st, Inl e)
                     | (coll, Inr saved) \<Rightarrow>
                         syncLoop newURL http p rt sh rest
                           (setEntry resource (Synced (length raw) saved) summary)
                           (setModel k coll st)))))"

definition syncShopResources ::
  "url_parser \<Rightarrow> transport \<Rightarrow> persistence \<Rightarrow> runtime \<Rightarrow> shop \<Rightarrow> string list \<Rightarrow> store
     \<Rightarrow> (store \<times> (thrown + summary)) option" where
  "syncShopResources newURL http p rt sh resources st =
     syncLoop newURL http p rt sh resources [] st"

definition defaultResources :: "string list" where
  "defaultResources = [''customers'', ''orders'', ''products'']"

text \<open>
  Two summaries agree on the configured kinds; two runs of the orchestrator come out alike:
  neither ends, or both throw the same error, or both return, with summaries that agree on
  the configured kinds; and in each case they leave the same store.
\<close>

definition agreeOnConfigured :: "summary \<Rightarrow> summary \<Rightarrow> bool" where
  "agreeOnConfigured s s' = (\<forall>k. resourceConfig k \<noteq> Absent \<longrightarrow> map_of s k = map_of s' k)"

fun sameOutcome ::
  "(store \<times> (thrown + summary)) option \<Rightarrow> (store \<times> (thrown + summary)) option \<Rightarrow> bool" where
  "sameOutcome None None = True"
| "sameOutcome (Some (st, Inl e)) (Some (st', Inl e')) = (st = st' \<and> e = e')"
| "sameOutcome (Some (st, Inr s)) (Some (st', Inr s')) = (st = st' \<and> agreeOnConfigured s s')"
| "sameOutcome x y = False"

section \<open>Operations on the store\<close>

text \<open>
  The operations of the service that write to the document store, and a run of them: a
  webhook delivery, a custom event, and a sync (which leaves the store as it is when it
  never ends). \<open>lowercaseTopics\<close> says that no stored event has an upper-case letter in its
  topic.
\<close>

datatype operation =
    Webhook string jsval shop
  | CustomEvent bool "shop option" string jsval jsval jsval
  | Sync transport shop "string list"

fun perform :: "url_parser \<Rightarrow> persistence \<Rightarrow> runtime \<Rightarrow> store \<Rightarrow> operation \<Rightarrow> store" where
  "perform newURL p rt st (Webhook topic payload sh) =
     fst (handleWebhook p rt topic payload sh st)"
| "perform newURL p rt st (CustomEvent validId found userEmail shopId topic payload) =
     fst (eventsPost validId found userEmail shopId topic payload st)"
| "perform newURL p rt st (Sync http sh resources) =
     (case syncShopResources newURL http p rt sh resources st of
        None \<Rightarrow> st
      | Some (st', outcome) \<Rightarrow> st')"

definition lowercaseTopics :: "store \<Rightarrow> bool" where
  "lowercaseTopics st = list_all (\<lambda>e. list_all (\<lambda>c. \<not> isUpper c) (event_topic e)) (events st)"

text \<open>
  A fixture run: a webhook and a custom event, both with capitals in the topic, and a sync
  of a kind that has no configuration.
\<close>

definition fixtureOperations :: "operation list" where
  "fixtureOperations =
     [Webhook ''Orders/Create'' fixtureOrder fixtureShop,
      CustomEvent True (Some fixtureShop) ''ada@example.com'' fixtureShopId (JStr ''Cart_Viewed'') JNull,
      Sync fixtureTransport fixtureShop [''bogus'']]"

text \<open>
  A fixture listing of products: one page of two products, whose records the store holds
  already under other titles.
\<close>

definition fixtureRawProducts :: "jsval list" where
  "fixtureRawProducts =
     [JObj [(''id'', JNum (Finite 1001)), (''title'', JStr ''Large mug'')],
      JObj [(''id'', JNum (Finite 1002)), (''title'', JStr ''Large cup'')]]"

definition fixtureProductTransport :: transport where
  "fixtureProductTransport r =
     (if path r = ''products.json''
      then Inr \<lparr>data = JObj [(''products'', JArr fixtureRawProducts)], link = None\<rparr>
      else Inl notFound)"

definition fixtureStore :: store where
  "fixtureStore = emptyStore\<lparr>products := fixtureProductRecords\<rparr>"

text \<open>
  A fixture listing of orders: one page with one order, whose line item has a text for a
  quantity, and a store that holds that order already, with another total.
\<close>

definition fixtureTextOrderTransport :: transport where
  "fixtureTextOrderTransport r =
     (if path r = ''orders.json''
      then Inr \<lparr>data = JObj [(''orders'', JArr [fixtureOrderTextQuantity])], link = None\<rparr>
      else Inl notFound)"

definition fixtureOrderStore :: store where
  "fixtureOrderStore = emptyStore\<lparr>orders :=
     [[(''shop'', fixtureShopId), (''shopifyId'', JStr ''1001''), (''totalPrice'', JNum (Finite 19.99))]]\<rparr>"

section \<open>Credential Verifier\<close>

text \<open>
  \<open>verifyShopCredentials\<close> (lines 107-126): the canonical domain and the \<open>shop\<close> object
  of the response, or the error thrown. The client is built from the spread \<open>{...shop}\<close>
  with the domain and the version set. The spread copies the own properties of its
  argument: of a plain object, as the registration route passes, all its fields; of a
  document of the store, as the scheduler and the sync route pass, none of the schema's
  fields, which are accessors. So for a document (\<open>isDocument\<close>) the client has no access
  token. \<open>clientForShop\<close> normalizes the domain once more and throws, outside the \<open>try\<close>,
  when that fails. Inside the \<open>try\<close>, the request may fail, and \<open>toLowerCase\<close> is called on
  a \<open>myshopify_domain\<close> that need not be a string.
\<close>

definition shopRequest :: "bool \<Rightarrow> shop \<Rightarrow> string \<Rightarrow> request" where
  "shopRequest isDocument sh domain =
     \<lparr>baseURL = ''https://'' @ domain @ ''/admin/api/''
                 @ (case apiVersion sh of None \<Rightarrow> DEFAULT_API_VERSION
                    | Some v \<Rightarrow> if v = [] then DEFAULT_API_VERSION else v) @ ''/'',
      token = (if isDocument then None else Some (accessToken sh)),
      path = ''shop.json'',
      query = []\<rparr>"

definition verifyShopCredentials ::
  "url_parser \<Rightarrow> transport \<Rightarrow> bool \<Rightarrow> shop \<Rightarrow> thrown + (string \<times> jsval)" where
  "verifyShopCredentials newURL http isDocument sh =
     (case normalizeShopDomain newURL (shopDomain sh) of
        None \<Rightarrow> Inl invalidDomainError
      | Some normalizedDomain \<Rightarrow>
          (case normalizeShopDomain newURL normalizedDomain of
             None \<Rightarrow> Inl invalidDomainError
           | Some domain \<Rightarrow>
               (case http (shopRequest isDocument sh domain) of
                  Inl err \<Rightarrow> Inl (buildShopifyError err normalizedDomain ''shop'')
                | Inr resp \<Rightarrow>
                    (let shopObject = (if nullish (data resp) then JUndefined else getProp (data resp) ''shop'');
                         myshopify = (if nullish shopObject then JUndefined
                                      else getProp shopObject ''myshopify_domain'')
                     in if nullish myshopify then Inr (normalizedDomain, shopObject)
                        else case myshopify of
                               JStr d \<Rightarrow>
                                 Inr (if toLowerCase d = [] then normalizedDomain else toLowerCase d,
                                      shopObject)
                             | _ \<Rightarrow> Inl (buildShopifyError engineFailure normalizedDomain ''shop'')))))"

section \<open>Scheduler\<close>

text \<open>
  The sweep of \<open>startScheduler\<close> (scheduler.js, lines 44-78) and \<open>markShopError\<close> (lines
  23-32). The two calls that reach the platform, \<open>verifyShopCredentials(shop)\<close> and
  \<open>syncShopResources(shop)\<close>, are parameters here: for a shop, the error the call throws,
  or \<open>None\<close> when it returns. The clock is read once per sweep: \<open>now\<close> is the time, \<open>nowISO\<close>
  its ISO string.
\<close>

definition schedulerInvalidDomain :: thrown where
  "schedulerInvalidDomain =
     \<lparr>message = ''Invalid shop domain. Provide the Admin hostname like '' @ [dquote]
                  @ ''your-store.myshopify.com'' @ [dquote] @ ''.'',
      status = None\<rparr>"

text \<open>\<open>/Invalid shop domain/i.test(err.message)\<close>\<close>

definition invalidDomainMessage :: "string \<Rightarrow> bool" where
  "invalidDomainMessage m = includesStr (toLowerCase m) ''invalid shop domain''"

fun mapSet :: "string \<Rightarrow> string \<Rightarrow> (string \<times> string) list \<Rightarrow> (string \<times> string) list" where
  "mapSet k v [] = [(k, v)]"
| "mapSet k v ((k', v') # m) = (if k' = k then (k, v) # m else (k', v') # mapSet k v m)"

text \<open>\<open>String(err.status || '')\<close>\<close>

definition statusString :: "thrown \<Rightarrow> string" where
  "statusString err = (case status err of None \<Rightarrow> [] | Some n \<Rightarrow> if n = 0 then [] else showNat n)"

definition markShopError :: "shop \<Rightarrow> thrown \<Rightarrow> string \<Rightarrow> shop" where
  "markShopError sh err nowISO =
     sh\<lparr>shop_status := Paused,
        metadata := Some
          (mapSet ''lastErrorAt'' nowISO
            (mapSet ''lastErrorStatus'' (statusString err)
              (mapSet ''lastError'' (message err)
                (case metadata sh of None \<Rightarrow> [] | Some m \<Rightarrow> m))))\<rparr>"

text \<open>
  The \<open>try\<close> block for one shop: the shop as saved so far, and the error thrown, if any.
\<close>

definition attemptSync ::
  "url_parser \<Rightarrow> (shop \<Rightarrow> thrown option) \<Rightarrow> (shop \<Rightarrow> thrown option) \<Rightarrow> nat \<Rightarrow> shop
     \<Rightarrow> shop \<times> thrown option" where
  "attemptSync newURL verify sync now sh =
     (case normalizeShopDomain newURL (shopDomain sh) of
        None \<Rightarrow> (sh, Some schedulerInvalidDomain)
      | Some normalizedDomain \<Rightarrow>
          (let sh1 = (if normalizedDomain \<noteq> shopDomain sh then sh\<lparr>shopDomain := normalizedDomain\<rparr>
                      else sh)
           in case verify sh1 of
                Some err \<Rightarrow> (sh1, Some err)
              | None \<Rightarrow>
                  (case sync sh1 of
                     Some err \<Rightarrow> (sh1, Some err)
                   | None \<Rightarrow> (sh1\<lparr>lastSyncedAt := Some now\<rparr>, None))))"

text \<open>The \<open>try\<close> with its \<open>catch\<close>.\<close>

definition processShop ::
  "url_parser \<Rightarrow> (shop \<Rightarrow> thrown option) \<Rightarrow> (shop \<Rightarrow> thrown option) \<Rightarrow> nat \<Rightarrow> string \<Rightarrow> shop \<Rightarrow> shop" where
  "processShop newURL verify sync now nowISO sh =
     (case attemptSync newURL verify sync now sh of
        (sh1, None) \<Rightarrow> sh1
      | (sh1, Some err) \<Rightarrow>
          if status err = Some 404 \<or> status err = Some 401 \<or> status err = Some 403
             \<or> invalidDomainMessage (message err)
          then markShopError sh1 err nowISO
          else sh1)"

text \<open>
  One tick over the shop collection: \<open>Shop.find({status: 'active'})\<close>, then the loop. A
  shop that is not active is not touched.
\<close>

definition tick ::
  "url_parser \<Rightarrow> (shop \<Rightarrow> thrown option) \<Rightarrow> (shop \<Rightarrow> thrown option) \<Rightarrow> nat \<Rightarrow> string \<Rightarrow> shop list
     \<Rightarrow> shop list" where
  "tick newURL verify sync now nowISO shops =
     map (\<lambda>sh. if shop_status sh = Active then processShop newURL verify sync now nowISO sh else sh) shops"

text \<open>
  The two calls as the service has them, for a transport, a library, a runtime and a store:
  what they throw. The scheduler passes a document to both.
\<close>

definition verifyThrows :: "url_parser \<Rightarrow> transport \<Rightarrow> shop \<Rightarrow> thrown option" where
  "verifyThrows newURL http sh =
     (case verifyShopCredentials newURL http True sh of Inl err \<Rightarrow> Some err | Inr ok \<Rightarrow> None)"

definition syncThrows ::
  "url_parser \<Rightarrow> transport \<Rightarrow> persistence \<Rightarrow> runtime \<Rightarrow> store \<Rightarrow> shop \<Rightarrow> thrown option" where
  "syncThrows newURL http p rt st sh =
     (case syncShopResources newURL http p rt sh defaultResources st of
        Some (st', Inl err) \<Rightarrow> Some err
      | _ \<Rightarrow> None)"

text \<open>
  Fixtures: three shops, and a transport that answers 401 to every request for the shop
  whose token was revoked, answers every request for the third shop with a 500 whose body
  quotes the words \<open>Invalid shop domain\<close>, and times out on every other request; the
  three failures; the two calls over that transport; and a verification that passes.
\<close>

definition unauthorized :: failure where
  "unauthorized = \<lparr>failure_status = Some 401, failure_statusText = Some ''Unauthorized'',
                   failure_detail = ''[API] Invalid API key or access token''\<rparr>"

definition timedOut :: failure where
  "timedOut = \<lparr>failure_status = None, failure_statusText = None,
               failure_detail = ''timeout of 15000ms exceeded''\<rparr>"

definition serverError :: failure where
  "serverError = \<lparr>failure_status = Some 500, failure_statusText = Some ''Internal Server Error'',
                  failure_detail = [dquote] @ ''Invalid shop domain'' @ [dquote]\<rparr>"

definition fixtureFlakyTransport :: transport where
  "fixtureFlakyTransport r =
     (if baseURL r = ''https://revoked-store.myshopify.com/admin/api/2024-10/'' then Inl unauthorized
      else if baseURL r = ''https://xa.myshopify.com/admin/api/2024-10/'' then Inl serverError
      else Inl timedOut)"

definition fixtureRevokedShop :: shop where
  "fixtureRevokedShop =
     fixtureShop\<lparr>shop_id := JStr ''shop-2'', shopDomain := ''revoked-store.myshopify.com''\<rparr>"

definition fixtureFailingShop :: shop where
  "fixtureFailingShop =
     fixtureShop\<lparr>shop_id := JStr ''shop-3'', shopDomain := ''xa.myshopify.com''\<rparr>"

definition fixtureVerify :: "shop \<Rightarrow> thrown option" where
  "fixtureVerify = verifyThrows fixtureURL fixtureFlakyTransport"

definition fixtureSync :: "shop \<Rightarrow> thrown option" where
  "fixtureSync = syncThrows fixtureURL fixtureFlakyTransport fixturePersistence fixtureRuntime emptyStore"

definition fixtureVerified :: "shop \<Rightarrow> thrown option" where
  "fixtureVerified sh = None"

definition fixtureShops :: "shop list" where
  "fixtureShops = [fixtureRevokedShop, fixtureShop, fixtureFailingShop]"

definition fixtureNowISO :: string where
  "fixtureNowISO = ''2026-01-01T00:00:00.000Z''"

chapter \<open>Properties\<close>

section \<open>Properties of the string functions\<close>

lemma startsWith_append: "startsWith (p @ s) p"
  by (induction p) auto

lemma startsWith_iff: "startsWith s p \<longleftrightarrow> (\<exists>t. s = p @ t)"
  by (induction s p rule: startsWith.induct) auto

lemma endsWith_iff: "endsWith s suf \<longleftrightarrow> (\<exists>t. s = t @ suf)"
proof
  assume "endsWith s suf"
  then obtain t where "rev s = rev suf @ t"
    by (auto simp: endsWith_def startsWith_iff)
  then have "s = rev t @ suf"
    by (metis rev_append rev_rev_ident)
  then show "\<exists>t. s = t @ suf" by blast
next
  assume "\<exists>t. s = t @ suf"
  then show "endsWith s suf"
    by (auto simp: endsWith_def startsWith_iff)
qed

lemma includes_iff: "includesStr s sub \<longleftrightarrow> (\<exists>a b. s = a @ sub @ b)"
proof (induction s)
  case Nil
  then show ?case by auto
next
  case (Cons c cs)
  show ?case
  proof
    assume "includesStr (c # cs) sub"
    then consider "startsWith (c # cs) sub" | "includesStr cs sub" by auto
    then show "\<exists>a b. c # cs = a @ sub @ b"
    proof cases
      case 1
      then obtain t where "c # cs = sub @ t" by (auto simp: startsWith_iff)
      then have "c # cs = [] @ sub @ t" by simp
      then show ?thesis by blast
    next
      case 2
      then obtain a b where "cs = a @ sub @ b" using Cons.IH by blast
      then have "c # cs = (c # a) @ sub @ b" by simp
      then show ?thesis by blast
    qed
  next
    assume "\<exists>a b. c # cs = a @ sub @ b"
    then obtain a b where ab: "c # cs = a @ sub @ b" by blast
    show "includesStr (c # cs) sub"
    proof (cases a)
      case Nil
      then have "startsWith (c # cs) sub"
        using ab by (simp add: startsWith_append)
      then show ?thesis by simp
    next
      case (Cons a0 as)
      then have "cs = as @ sub @ b" using ab by simp
      then show ?thesis using Cons.IH by auto
    qed
  qed
qed

lemma includes_dot_suffix: "includesStr (t @ platformSuffix) ''.''"
proof -
  have "t @ platformSuffix = t @ ''.'' @ ''myshopify.com''"
    by (simp add: platformSuffix_def)
  then show ?thesis unfolding includes_iff by blast
qed

lemma of_char_toLowerChar: "\<not> isUpper (toLowerChar c)"
proof (cases "isUpper c")
  case True
  then have "(of_char c :: nat) + 32 < 256" by (simp add: isUpper_def)
  then have "(of_char (char_of ((of_char c :: nat) + 32)) :: nat) = of_char c + 32"
    by simp
  then show ?thesis using True by (simp add: toLowerChar_def isUpper_def)
next
  case False
  then show ?thesis by (simp add: toLowerChar_def)
qed

lemma toLowerCase_no_upper: "\<forall>c \<in> set (toLowerCase s). \<not> isUpper c"
  by (simp add: toLowerCase_def of_char_toLowerChar)

section \<open>Domain Normalizer: idempotence and rejection\<close>

lemma normalize_Some_endsWith:
  "normalizeShopDomain newURL h = Some r \<Longrightarrow> endsWith r platformSuffix"
  by (auto simp: normalizeShopDomain_def Let_def split: if_splits option.splits)

lemma normalize_again:
  assumes "endsWith r platformSuffix"
  shows "normalizeShopDomain newURL r = Some r \<longleftrightarrow>
           (\<exists>host. parseHost newURL (trim r) = Some host \<and> defaultSuffix host = r)"
proof -
  obtain t where "r = t @ platformSuffix"
    using assms by (auto simp: endsWith_iff)
  then have "r \<noteq> []"
    by (simp add: platformSuffix_def)
  then show ?thesis
    using assms by (auto simp: normalizeShopDomain_def Let_def split: option.splits)
qed

text \<open>
  C7, as the code has it. Every hostname the normalizer returns ends with the platform
  suffix \<open>.myshopify.com\<close>. Normalizing it again returns it exactly when the parse step
  reads it back: the host the URL parser finds in it (with \<open>https://\<close> in front when it
  holds no \<open>://\<close>), lowercased and given the suffix when it has no dot, is the hostname
  itself. That is so, in particular, whenever the hostname has no white space around it and
  no \<open>://\<close> in it and the parser finds it, up to case, as the host of \<open>https://\<close> followed
  by it.
\<close>

theorem normalizeShopDomain_idempotent:
  assumes accepted: "normalizeShopDomain newURL h = Some r"
  shows "endsWith r platformSuffix
    \<and> (normalizeShopDomain newURL r = normalizeShopDomain newURL h \<longleftrightarrow>
         (\<exists>host. parseHost newURL (trim r) = Some host \<and> defaultSuffix host = r))
    \<and> ((\<exists>u. newURL (''https://'' @ r) = Some u \<and> toLowerCase (hostname u) = r)
         \<and> trim r = r \<and> \<not> includesStr r ''://'' \<longrightarrow>
         normalizeShopDomain newURL r = normalizeShopDomain newURL h)"
proof -
  have suffix: "endsWith r platformSuffix"
    using accepted by (rule normalize_Some_endsWith)
  have again: "normalizeShopDomain newURL r = normalizeShopDomain newURL h \<longleftrightarrow>
         (\<exists>host. parseHost newURL (trim r) = Some host \<and> defaultSuffix host = r)"
    using normalize_again [OF suffix, of newURL] accepted by simp
  obtain t where r: "r = t @ platformSuffix"
    using suffix by (auto simp: endsWith_iff)
  have dot: "includesStr r ''.''"
    unfolding r by (rule includes_dot_suffix)
  have "(\<exists>u. newURL (''https://'' @ r) = Some u \<and> toLowerCase (hostname u) = r)
         \<and> trim r = r \<and> \<not> includesStr r ''://'' \<longrightarrow>
         normalizeShopDomain newURL r = normalizeShopDomain newURL h"
  proof
    assume reads: "(\<exists>u. newURL (''https://'' @ r) = Some u \<and> toLowerCase (hostname u) = r)
         \<and> trim r = r \<and> \<not> includesStr r ''://''"
    then have "parseHost newURL (trim r) = Some r"
      by (auto simp: parseHost_def)
    moreover have "defaultSuffix r = r"
      using dot by (simp add: defaultSuffix_def)
    ultimately show "normalizeShopDomain newURL r = normalizeShopDomain newURL h"
      using again by blast
  qed
  then show ?thesis using suffix again by blast
qed

theorem normalizeShopDomain_idempotent_witness:
  "normalizeShopDomain fixtureURL ''  Acme-Store.MyShopify.com/admin '' = Some ''acme-store.myshopify.com''
   \<and> parseHost fixtureURL (trim ''acme-store.myshopify.com'') = Some ''acme-store.myshopify.com''
   \<and> defaultSuffix ''acme-store.myshopify.com'' = ''acme-store.myshopify.com''
   \<and> normalizeShopDomain fixtureURL ''acme-store.myshopify.com''
       = normalizeShopDomain fixtureURL ''  Acme-Store.MyShopify.com/admin ''
   \<and> endsWith ''acme-store.myshopify.com'' platformSuffix"
proof -
  have accepted:
    "normalizeShopDomain fixtureURL ''  Acme-Store.MyShopify.com/admin '' = Some ''acme-store.myshopify.com''"
    by code_simp
  have readback: "parseHost fixtureURL (trim ''acme-store.myshopify.com'') = Some ''acme-store.myshopify.com''"
    by code_simp
  have same: "defaultSuffix ''acme-store.myshopify.com'' = ''acme-store.myshopify.com''"
    by code_simp
  show ?thesis
    using normalizeShopDomain_idempotent [OF accepted] accepted readback same by blast
qed

text \<open>
  The claim as the specification words it, for every input the normalizer accepts, fails.
  The input \<open>foo://X%41.myshopify.com\<close> is accepted: the host of a URL of this scheme is
  kept as written, and lowercased it ends with the suffix. Normalized again, now as the host
  of an \<open>https:\<close> URL, its percent escape is decoded, and the result is another hostname.
\<close>

theorem normalizeShopDomain_idempotent_counterexample:
  "normalizeShopDomain fixtureURL ''foo://X%41.myshopify.com'' = Some ''x%41.myshopify.com''
   \<and> normalizeShopDomain fixtureURL ''x%41.myshopify.com'' = Some ''xa.myshopify.com''
   \<and> ''xa.myshopify.com'' \<noteq> ''x%41.myshopify.com''"
  by code_simp

text \<open>
  C8. The normalizer returns \<open>null\<close> (the invalid-domain signal, \<open>None\<close>) for every input
  that the URL parser rejects, with \<open>https://\<close> put in front when the input has no scheme,
  and for every input whose host, lowercased and given the platform suffix when it has no
  dot, does not end with \<open>.myshopify.com\<close>: a custom storefront domain is such an input.
\<close>

theorem normalizeShopDomain_rejects:
  assumes "parseHost newURL (trim raw) = None
           \<or> (\<exists>host. parseHost newURL (trim raw) = Some host
                \<and> \<not> endsWith (defaultSuffix host) platformSuffix)"
  shows "normalizeShopDomain newURL raw = None"
  using assms by (auto simp: normalizeShopDomain_def Let_def)

theorem normalizeShopDomain_rejects_witness:
  "normalizeShopDomain fixtureURL ''shop.example.com'' = None
   \<and> normalizeShopDomain fixtureURL ''not a url'' = None"
proof -
  have host: "parseHost fixtureURL (trim ''shop.example.com'') = Some ''shop.example.com''"
    by code_simp
  have custom: "\<not> endsWith (defaultSuffix ''shop.example.com'') platformSuffix"
    by code_simp
  have unparsable: "parseHost fixtureURL (trim ''not a url'') = None"
    by code_simp
  have "normalizeShopDomain fixtureURL ''shop.example.com'' = None"
    using normalizeShopDomain_rejects [of fixtureURL "''shop.example.com''"] host custom
    by simp
  moreover have "normalizeShopDomain fixtureURL ''not a url'' = None"
    using normalizeShopDomain_rejects [of fixtureURL "''not a url''"] unparsable
    by simp
  ultimately show ?thesis by simp
qed

section \<open>Resource mappers\<close>

text \<open>
  A mapper is a chain of conversions; it returns when each of them returns.
\<close>

lemma returns_iff: "returns m \<longleftrightarrow> (\<exists>a. m = Inr a)"
  by (cases m) (simp_all add: returns_def)

lemma andThen_Inr_iff: "andThen m f = Inr b \<longleftrightarrow> (\<exists>a. m = Inr a \<and> f a = Inr b)"
  by (cases m) (simp_all add: andThen_def)

lemma returns_andThen: "returns (andThen m f) \<longleftrightarrow> (\<exists>a. m = Inr a \<and> returns (f a))"
  by (cases m) (simp_all add: andThen_def returns_def)

lemma primitiveSafe_String: "primitiveSafe rt \<Longrightarrow> primitive v \<Longrightarrow> \<exists>s. js_String rt v = Inr s"
  by (simp add: primitiveSafe_def returns_iff)

lemma primitiveSafe_Number: "primitiveSafe rt \<Longrightarrow> primitive v \<Longrightarrow> \<exists>n. js_Number rt v = Inr n"
  by (simp add: primitiveSafe_def returns_iff)

lemma toNumber_returns: "primitiveSafe rt \<Longrightarrow> primitive v \<Longrightarrow> \<exists>w. toNumber rt v = Inr w"
  using primitiveSafe_Number [of rt v] by (auto simp: toNumber_def andThen_def)

lemma toNumber_absent_iff: "toNumber rt v = Inr JUndefined \<longleftrightarrow> monetaryAbsent rt v"
  by (auto simp: toNumber_def monetaryAbsent_def andThen_def split: sum.splits)

lemma mapAll_Inr_iff: "(\<exists>ys. mapAll f xs = Inr ys) \<longleftrightarrow> list_all (\<lambda>x. \<exists>y. f x = Inr y) xs"
  by (induction xs) (auto split: sum.splits)

lemma trimElement_Inr: "isString t \<Longrightarrow> \<exists>s. trimElement t = Inr s"
  by (cases t) simp_all

lemma normalizeTags_returns:
  assumes "primitiveSafe rt" "tagsShape tags"
  shows "\<exists>v. normalizeTags rt tags = Inr v"
proof (cases tags)
  case (JArr ts)
  then have "list_all isString ts" using assms(2) by (simp add: tagsShape_def)
  then have "list_all (\<lambda>t. \<exists>s. trimElement t = Inr s) ts"
    by (simp add: list_all_iff trimElement_Inr)
  then obtain ss where "mapAll trimElement ts = Inr ss"
    using mapAll_Inr_iff [of trimElement ts] by blast
  then show ?thesis using JArr by (simp add: normalizeTags_def andThen_def)
next
  case (JObj fs)
  then show ?thesis using assms(2) by (simp add: tagsShape_def)
qed (use assms primitiveSafe_String [of rt tags] in \<open>auto simp: normalizeTags_def andThen_def\<close>)

lemma stringIfTruthy_returns:
  "primitiveSafe rt \<Longrightarrow> primitive v \<Longrightarrow> \<exists>w. stringIfTruthy rt v = Inr w"
  using primitiveSafe_String [of rt v] by (auto simp: stringIfTruthy_def andThen_def)

lemma orderCustomer_returns:
  "primitiveSafe rt \<Longrightarrow> primitive (getProp c ''id'') \<Longrightarrow> \<exists>w. orderCustomer rt c = Inr w"
  using primitiveSafe_String [of rt "getProp c ''id''"]
  by (auto simp: orderCustomer_def andThen_def)

lemma lineItem_map_returns:
  assumes "primitiveSafe rt" "lineItemShape li"
  shows "\<exists>m. lineItem_map rt li = Inr m"
proof -
  obtain a where a: "js_String rt (getProp li ''id'') = Inr a"
    using assms primitiveSafe_String by (auto simp: lineItemShape_def)
  obtain b where b: "stringIfTruthy rt (getProp li ''product_id'') = Inr b"
    using assms stringIfTruthy_returns by (auto simp: lineItemShape_def)
  obtain c where c: "stringIfTruthy rt (getProp li ''variant_id'') = Inr c"
    using assms stringIfTruthy_returns by (auto simp: lineItemShape_def)
  obtain d where d: "toNumber rt (getProp li ''price'') = Inr d"
    using assms toNumber_returns by (auto simp: lineItemShape_def)
  show ?thesis
    using assms(2) a b c d by (simp add: lineItem_map_def lineItemShape_def andThen_def)
qed

lemma variant_map_returns:
  assumes "primitiveSafe rt" "variantShape v"
  shows "\<exists>m. variant_map rt v = Inr m"
proof -
  obtain a where a: "js_String rt (getProp v ''id'') = Inr a"
    using assms primitiveSafe_String by (auto simp: variantShape_def)
  obtain d where d: "toNumber rt (getProp v ''price'') = Inr d"
    using assms toNumber_returns by (auto simp: variantShape_def)
  show ?thesis
    using assms(2) a d by (simp add: variant_map_def variantShape_def andThen_def)
qed

lemma orEmptyMap_returns:
  assumes "\<And>x. itemShape x \<Longrightarrow> \<exists>y. f x = Inr y" "itemsShape itemShape v"
  shows "\<exists>w. orEmptyMap f v = Inr w"
proof (cases "truthy v")
  case False
  then show ?thesis by (simp add: orEmptyMap_def)
next
  case True
  then obtain xs where v: "v = JArr xs" and all: "list_all itemShape xs"
    using assms(2) by (cases v) (simp_all add: itemsShape_def)
  have "list_all (\<lambda>x. \<exists>y. f x = Inr y) xs"
    using all assms(1) by (simp add: list_all_iff)
  then obtain ys where "mapAll f xs = Inr ys"
    using mapAll_Inr_iff [of f xs] by blast
  then show ?thesis using v by (simp add: orEmptyMap_def andThen_def)
qed

lemma customers_map_returns:
  assumes "primitiveSafe rt" "customerShape raw"
  shows "\<exists>d. customers_map rt raw s = Inr d"
proof -
  obtain a where a: "js_String rt (getProp raw ''id'') = Inr a"
    using assms primitiveSafe_String by (auto simp: customerShape_def)
  obtain t where t: "normalizeTags rt (getProp raw ''tags'') = Inr t"
    using assms normalizeTags_returns by (auto simp: customerShape_def)
  obtain n where n: "toNumber rt (getProp raw ''total_spent'') = Inr n"
    using assms toNumber_returns by (auto simp: customerShape_def)
  show ?thesis
    using assms(2) a t n by (simp add: customers_map_def customerShape_def andThen_def)
qed

lemma orders_map_returns:
  assumes "primitiveSafe rt" "orderShape raw"
  shows "\<exists>d. orders_map rt raw s = Inr d"
proof -
  obtain a where a: "js_String rt (getProp raw ''id'') = Inr a"
    using assms primitiveSafe_String by (auto simp: orderShape_def)
  obtain n1 where n1: "toNumber rt (getProp raw ''total_price'') = Inr n1"
    using assms toNumber_returns by (auto simp: orderShape_def)
  obtain n2 where n2: "toNumber rt (getProp raw ''subtotal_price'') = Inr n2"
    using assms toNumber_returns by (auto simp: orderShape_def)
  obtain n3 where n3: "toNumber rt (getProp raw ''total_discounts'') = Inr n3"
    using assms toNumber_returns by (auto simp: orderShape_def)
  obtain t where t: "normalizeTags rt (getProp raw ''tags'') = Inr t"
    using assms normalizeTags_returns by (auto simp: orderShape_def)
  obtain c where c: "orderCustomer rt (getProp raw ''customer'') = Inr c"
    using assms orderCustomer_returns by (auto simp: orderShape_def)
  obtain l where l: "orEmptyMap (lineItem_map rt) (getProp raw ''line_items'') = Inr l"
    using orEmptyMap_returns [of lineItemShape "lineItem_map rt" "getProp raw ''line_items''"]
      lineItem_map_returns [OF assms(1)] assms(2)
    by (auto simp: orderShape_def)
  show ?thesis
    using assms(2) a n1 n2 n3 t c l by (simp add: orders_map_def orderShape_def andThen_def)
qed

lemma products_map_returns:
  assumes "primitiveSafe rt" "productShape raw"
  shows "\<exists>d. products_map rt raw s = Inr d"
proof -
  obtain a where a: "js_String rt (getProp raw ''id'') = Inr a"
    using assms primitiveSafe_String by (auto simp: productShape_def)
  obtain t where t: "normalizeTags rt (getProp raw ''tags'') = Inr t"
    using assms normalizeTags_returns by (auto simp: productShape_def)
  obtain l where l: "orEmptyMap (variant_map rt) (getProp raw ''variants'') = Inr l"
    using orEmptyMap_returns [of variantShape "variant_map rt" "getProp raw ''variants''"]
      variant_map_returns [OF assms(1)] assms(2)
    by (auto simp: productShape_def)
  show ?thesis
    using assms(2) a t l by (simp add: products_map_def productShape_def andThen_def)
qed

lemma customers_map_fields:
  "customers_map rt raw s = Inr d \<Longrightarrow>
     toNumber rt (getProp raw ''total_spent'') = Inr (getProp d ''totalSpent'')"
  by (auto simp: customers_map_def andThen_Inr_iff split: if_splits)

lemma orders_map_fields:
  "orders_map rt raw s = Inr d \<Longrightarrow>
     toNumber rt (getProp raw ''total_price'') = Inr (getProp d ''totalPrice'')
   \<and> toNumber rt (getProp raw ''subtotal_price'') = Inr (getProp d ''subtotalPrice'')
   \<and> toNumber rt (getProp raw ''total_discounts'') = Inr (getProp d ''totalDiscounts'')
   \<and> orEmptyMap (lineItem_map rt) (getProp raw ''line_items'') = Inr (getProp d ''lineItems'')"
  by (auto simp: orders_map_def andThen_Inr_iff split: if_splits)

lemma products_map_fields:
  "products_map rt raw s = Inr d \<Longrightarrow>
     orEmptyMap (variant_map rt) (getProp raw ''variants'') = Inr (getProp d ''variants'')"
  by (auto simp: products_map_def andThen_Inr_iff split: if_splits)

lemma lineItem_fields:
  "lineItem_map rt li = Inr m \<Longrightarrow>
     toNumber rt (getProp li ''price'') = Inr (getProp m ''price'')
   \<and> getProp m ''quantity'' = getProp li ''quantity''"
  by (auto simp: lineItem_map_def andThen_Inr_iff split: if_splits)

lemma variant_fields:
  "variant_map rt v = Inr m \<Longrightarrow>
     toNumber rt (getProp v ''price'') = Inr (getProp m ''price'')
   \<and> getProp m ''inventoryQuantity'' = getProp v ''inventory_quantity''"
  by (auto simp: variant_map_def andThen_Inr_iff split: if_splits)

lemma orEmptyMap_items:
  "orEmptyMap f v = Inr w \<Longrightarrow> \<exists>ys. w = JArr ys \<and> mapAll f (items v) = Inr ys"
  by (cases v) (auto simp: orEmptyMap_def items_def andThen_Inr_iff split: if_splits)

lemma fixtureRuntime_primitiveSafe: "primitiveSafe fixtureRuntime"
  unfolding primitiveSafe_def
proof (intro allI impI)
  fix v assume "primitive v"
  then show "returns (js_Number fixtureRuntime v) \<and> returns (js_String fixtureRuntime v)"
    by (cases v) (simp_all add: fixtureRuntime_def fixtureNumber_def fixtureString_def returns_def)
qed

text \<open>
  C4, as the code has it. The mappers are not total: they read properties, call
  \<open>.trim()\<close> and \<open>.map()\<close> and convert with \<open>String\<close> and \<open>Number\<close> without a guard. With
  a runtime whose \<open>String\<close> and \<open>Number\<close> return on every primitive value (as the
  language's do), a mapper returns a document for every raw record of the shape the
  platform sends: the record is not \<open>null\<close>; its \<open>id\<close> and its monetary fields are
  primitive; its \<open>tags\<close> is a primitive or an array of strings; its \<open>line_items\<close> (orders)
  or \<open>variants\<close> (products) is falsy or an array of items that are not \<open>null\<close> and whose
  ids and prices are primitive; the \<open>id\<close> of an order's customer is primitive. Whenever a
  mapper returns a document, every monetary field of it (\<open>totalSpent\<close>, \<open>totalPrice\<close>,
  \<open>subtotalPrice\<close>, \<open>totalDiscounts\<close>, the \<open>price\<close> of each line item and variant) is
  \<open>toNumber\<close> of the raw field, which returns on every primitive and is absent exactly
  when the raw value is missing, \<open>null\<close>, the empty string, or converts to \<open>NaN\<close>. The
  quantity fields (\<open>quantity\<close>, \<open>inventoryQuantity\<close>) are copies of the raw values,
  whatever these are.
\<close>

theorem mappers_return_on_shaped_records:
  assumes safe: "primitiveSafe rt"
  shows "(customerShape raw \<longrightarrow> (\<exists>d. customers_map rt raw s = Inr d))
   \<and> (orderShape raw \<longrightarrow> (\<exists>d. orders_map rt raw s = Inr d))
   \<and> (productShape raw \<longrightarrow> (\<exists>d. products_map rt raw s = Inr d))
   \<and> (\<forall>d. customers_map rt raw s = Inr d \<longrightarrow>
          toNumber rt (getProp raw ''total_spent'') = Inr (getProp d ''totalSpent''))
   \<and> (\<forall>d. orders_map rt raw s = Inr d \<longrightarrow>
          toNumber rt (getProp raw ''total_price'') = Inr (getProp d ''totalPrice'')
        \<and> toNumber rt (getProp raw ''subtotal_price'') = Inr (getProp d ''subtotalPrice'')
        \<and> toNumber rt (getProp raw ''total_discounts'') = Inr (getProp d ''totalDiscounts'')
        \<and> (\<exists>ys. getProp d ''lineItems'' = JArr ys
              \<and> mapAll (lineItem_map rt) (items (getProp raw ''line_items'')) = Inr ys))
   \<and> (\<forall>d. products_map rt raw s = Inr d \<longrightarrow>
          (\<exists>ys. getProp d ''variants'' = JArr ys
              \<and> mapAll (variant_map rt) (items (getProp raw ''variants'')) = Inr ys))
   \<and> (\<forall>m. lineItem_map rt item = Inr m \<longrightarrow>
          toNumber rt (getProp item ''price'') = Inr (getProp m ''price'')
        \<and> getProp m ''quantity'' = getProp item ''quantity'')
   \<and> (\<forall>m. variant_map rt item = Inr m \<longrightarrow>
          toNumber rt (getProp item ''price'') = Inr (getProp m ''price'')
        \<and> getProp m ''inventoryQuantity'' = getProp item ''inventory_quantity'')
   \<and> (primitive v \<longrightarrow> (\<exists>w. toNumber rt v = Inr w))
   \<and> (toNumber rt v = Inr JUndefined \<longleftrightarrow> monetaryAbsent rt v)"
proof -
  have returning:
    "(customerShape raw \<longrightarrow> (\<exists>d. customers_map rt raw s = Inr d))
     \<and> (orderShape raw \<longrightarrow> (\<exists>d. orders_map rt raw s = Inr d))
     \<and> (productShape raw \<longrightarrow> (\<exists>d. products_map rt raw s = Inr d))"
    using customers_map_returns [OF safe, of raw s] orders_map_returns [OF safe, of raw s]
      products_map_returns [OF safe, of raw s]
    by blast
  have customers:
    "\<forall>d. customers_map rt raw s = Inr d \<longrightarrow>
          toNumber rt (getProp raw ''total_spent'') = Inr (getProp d ''totalSpent'')"
    using customers_map_fields [of rt raw s] by blast
  have orders:
    "\<forall>d. orders_map rt raw s = Inr d \<longrightarrow>
          toNumber rt (getProp raw ''total_price'') = Inr (getProp d ''totalPrice'')
        \<and> toNumber rt (getProp raw ''subtotal_price'') = Inr (getProp d ''subtotalPrice'')
        \<and> toNumber rt (getProp raw ''total_discounts'') = Inr (getProp d ''totalDiscounts'')
        \<and> (\<exists>ys. getProp d ''lineItems'' = JArr ys
              \<and> mapAll (lineItem_map rt) (items (getProp raw ''line_items'')) = Inr ys)"
    using orders_map_fields [of rt raw s]
      orEmptyMap_items [of "lineItem_map rt" "getProp raw ''line_items''"]
    by blast
  have products:
    "\<forall>d. products_map rt raw s = Inr d \<longrightarrow>
          (\<exists>ys. getProp d ''variants'' = JArr ys
              \<and> mapAll (variant_map rt) (items (getProp raw ''variants'')) = Inr ys)"
    using products_map_fields [of rt raw s]
      orEmptyMap_items [of "variant_map rt" "getProp raw ''variants''"]
    by blast
  have nested:
    "(\<forall>m. lineItem_map rt item = Inr m \<longrightarrow>
          toNumber rt (getProp item ''price'') = Inr (getProp m ''price'')
        \<and> getProp m ''quantity'' = getProp item ''quantity'')
     \<and> (\<forall>m. variant_map rt item = Inr m \<longrightarrow>
          toNumber rt (getProp item ''price'') = Inr (getProp m ''price'')
        \<and> getProp m ''inventoryQuantity'' = getProp item ''inventory_quantity'')"
    using lineItem_fields [of rt item] variant_fields [of rt item] by blast
  have absent:
    "(primitive v \<longrightarrow> (\<exists>w. toNumber rt v = Inr w))
     \<and> (toNumber rt v = Inr JUndefined \<longleftrightarrow> monetaryAbsent rt v)"
    using toNumber_returns [OF safe, of v] toNumber_absent_iff [of rt v] by blast
  from returning customers orders products nested absent show ?thesis
    by (elim conjE) (intro conjI; assumption)
qed

theorem mappers_return_on_shaped_records_witness:
  "primitiveSafe fixtureRuntime \<and> orderShape fixtureOrder
   \<and> monetaryAbsent fixtureRuntime (getProp fixtureOrder ''subtotal_price'')
   \<and> monetaryAbsent fixtureRuntime (getProp fixtureOrder ''total_discounts'')
   \<and> (\<exists>d. orders_map fixtureRuntime fixtureOrder fixtureShopId = Inr d
          \<and> getProp d ''totalPrice'' = JNum (Finite 19.99)
          \<and> getProp d ''subtotalPrice'' = JUndefined
          \<and> getProp d ''totalDiscounts'' = JUndefined)"
proof -
  note safe = fixtureRuntime_primitiveSafe
  have shape: "orderShape fixtureOrder"
    by code_simp
  have empty: "monetaryAbsent fixtureRuntime (getProp fixtureOrder ''subtotal_price'')"
    by code_simp
  have nonnum: "monetaryAbsent fixtureRuntime (getProp fixtureOrder ''total_discounts'')"
    by code_simp
  have price: "toNumber fixtureRuntime (getProp fixtureOrder ''total_price'') = Inr (JNum (Finite 19.99))"
    by code_simp
  obtain d where d: "orders_map fixtureRuntime fixtureOrder fixtureShopId = Inr d"
    using mappers_return_on_shaped_records [OF safe, of fixtureOrder fixtureShopId] shape
    by blast
  have fields:
    "toNumber fixtureRuntime (getProp fixtureOrder ''total_price'') = Inr (getProp d ''totalPrice'')
     \<and> toNumber fixtureRuntime (getProp fixtureOrder ''subtotal_price'') = Inr (getProp d ''subtotalPrice'')
     \<and> toNumber fixtureRuntime (getProp fixtureOrder ''total_discounts'') = Inr (getProp d ''totalDiscounts'')"
    using mappers_return_on_shaped_records [OF safe, of fixtureOrder fixtureShopId] d
    by blast
  have sub: "toNumber fixtureRuntime (getProp fixtureOrder ''subtotal_price'') = Inr JUndefined"
    using mappers_return_on_shaped_records
      [OF safe, of fixtureOrder fixtureShopId _ "getProp fixtureOrder ''subtotal_price''"]
      empty
    by blast
  have disc: "toNumber fixtureRuntime (getProp fixtureOrder ''total_discounts'') = Inr JUndefined"
    using mappers_return_on_shaped_records
      [OF safe, of fixtureOrder fixtureShopId _ "getProp fixtureOrder ''total_discounts''"]
      nonnum
    by blast
  have "getProp d ''totalPrice'' = JNum (Finite 19.99)"
    using fields price by simp
  moreover have "getProp d ''subtotalPrice'' = JUndefined"
    using fields sub by simp
  moreover have "getProp d ''totalDiscounts'' = JUndefined"
    using fields disc by simp
  ultimately show ?thesis using safe shape empty nonnum d by blast
qed

text \<open>
  The claim as the specification words it fails on both counts. The mappers are not total:
  the order mapper throws on an order whose \<open>line_items\<close> holds a \<open>null\<close>, the customer
  mapper on a customer whose \<open>tags\<close> array holds a number, and on a customer whose \<open>id\<close>
  is an object that \<open>String\<close> cannot convert. And a quantity is never made absent: a line
  item's quantity \<open>"lots"\<close> and a variant's empty \<open>inventory_quantity\<close> are copied into the
  document as they are.
\<close>

theorem mappers_total_counterexample:
  "orders_map fixtureRuntime fixtureOrderNullItem fixtureShopId = Inl TypeError
   \<and> customers_map fixtureRuntime fixtureCustomerNumericTag fixtureShopId = Inl TypeError
   \<and> customers_map fixtureRuntime fixtureCustomerObjectId fixtureShopId = Inl TypeError
   \<and> andThen (lineItem_map fixtureRuntime fixtureLineItemTextQuantity)
        (\<lambda>m. Inr (getProp m ''quantity'')) = Inr (JStr ''lots'')
   \<and> andThen (variant_map fixtureRuntime fixtureVariantEmptyQuantity)
        (\<lambda>m. Inr (getProp m ''inventoryQuantity'')) = Inr (JStr [])"
  by code_simp

section \<open>Upsert Writer: what a write leaves behind, and what it counts\<close>

lemma map_of_setField: "map_of (setField k v r) = (map_of r)(k \<mapsto> v)"
  by (induction r) (auto simp: fun_eq_iff)

lemma map_of_applySet:
  "distinct (map fst u) \<Longrightarrow>
   map_of (applySet u r) k = (case map_of u k of None \<Rightarrow> map_of r k | Some v \<Rightarrow> Some v)"
proof (induction u arbitrary: r)
  case Nil
  then show ?case by simp
next
  case (Cons kv u)
  obtain k' v' where kv: "kv = (k', v')" by (cases kv)
  have d: "distinct (map fst u)" and fresh: "k' \<notin> fst ` set u"
    using Cons.prems kv by auto
  have none: "map_of u k' = None"
    using fresh by (simp add: map_of_eq_None_iff)
  show ?case
  proof (cases "k = k'")
    case True
    then show ?thesis
      using Cons.IH [OF d] kv none by (simp add: map_of_setField)
  next
    case False
    then show ?thesis
      using Cons.IH [OF d] kv by (auto simp: map_of_setField split: option.splits)
  qed
qed

lemma docField_applySet_defined:
  assumes "distinct (map fst u)" "docField u k \<noteq> JUndefined"
  shows "docField (applySet u r) k = docField u k"
proof (cases "map_of u k")
  case None
  then show ?thesis using assms(2) by (simp add: docField_def)
next
  case (Some v)
  then have "map_of (applySet u r) k = Some v"
    using map_of_applySet [OF assms(1), of r k] by simp
  then show ?thesis using Some by (simp add: docField_def)
qed

lemma docKey_applySet: "keepsKey d u \<Longrightarrow> docKey (applySet u r) = docKey d"
proof -
  assume k: "keepsKey d u"
  have d: "distinct (map fst u)" and s1: "docField u ''shop'' \<noteq> JUndefined"
    and s2: "docField u ''shopifyId'' \<noteq> JUndefined" and same: "docKey u = docKey d"
    using k by (simp_all add: keepsKey_def)
  have "docField (applySet u r) ''shop'' = docField u ''shop''"
    using d s1 by (rule docField_applySet_defined)
  moreover have "docField (applySet u r) ''shopifyId'' = docField u ''shopifyId''"
    using d s2 by (rule docField_applySet_defined)
  ultimately have "docKey (applySet u r) = docKey u"
    by (simp add: docKey_def)
  then show ?thesis using same by simp
qed

lemma updateFirst_None_iff: "updateFirst m f c = None \<longleftrightarrow> (\<forall>r \<in> set c. \<not> m r)"
  by (induction c) (auto split: option.splits)

lemma updateFirst_unique:
  assumes "distinct (map docKey c)" "r \<in> set c" "docKey r = K"
  shows "updateFirst (\<lambda>x. docKey x = K) f c
           = Some (map (\<lambda>x. if docKey x = K then f x else x) c, f r \<noteq> r)"
  using assms
proof (induction c)
  case Nil
  then show ?case by simp
next
  case (Cons x c)
  show ?case
  proof (cases "docKey x = K")
    case True
    then have "x = r"
      using Cons.prems by (auto simp: image_iff)
    moreover have "map (\<lambda>x. if docKey x = K then f x else x) c = c"
      using Cons.prems True by (intro map_idI) (auto simp: image_iff)
    ultimately show ?thesis using True by simp
  next
    case False
    then have "r \<in> set c" using Cons.prems by auto
    then show ?thesis using Cons False by simp
  qed
qed

lemma updateOne_existing:
  assumes "distinct (map docKey c)" "r \<in> set c" "docKey r = docKey d"
  shows "updateOne d u (c, res)
           = (map (\<lambda>x. if docKey x = docKey d then applySet u x else x) c,
              res\<lparr>matchedCount := matchedCount res + 1,
                  modifiedCount := modifiedCount res + (if applySet u r \<noteq> r then 1 else 0)\<rparr>)"
  using updateFirst_unique [OF assms, of "applySet u"]
  by (simp add: updateOne_def)

lemma updateOne_absent:
  assumes "\<forall>r \<in> set c. docKey r \<noteq> docKey d"
  shows "updateOne d u (c, res)
           = (c @ [applySet u [(''shop'', docField d ''shop''), (''shopifyId'', docField d ''shopifyId'')]],
              res\<lparr>upsertedCount := upsertedCount res + 1\<rparr>)"
proof -
  have "updateFirst (\<lambda>r. docKey r = docKey d) (applySet u) c = None"
    using assms by (simp add: updateFirst_None_iff)
  then show ?thesis by (simp add: updateOne_def)
qed

lemma bulkWrite_all_existing:
  assumes "distinct (map docKey c)" "distinct (map (\<lambda>op. docKey (fst op)) ops)"
    and "\<forall>op \<in> set ops. keepsKey (fst op) (snd op)
            \<and> (\<exists>r \<in> set c. docKey r = docKey (fst op) \<and> applySet (snd op) r \<noteq> r)"
  shows "snd (foldl (\<lambda>st op. updateOne (fst op) (snd op) st) (c, res) ops)
           = res\<lparr>matchedCount := matchedCount res + length ops,
                 modifiedCount := modifiedCount res + length ops\<rparr>"
  using assms
proof (induction ops arbitrary: c res)
  case Nil
  then show ?case by simp
next
  case (Cons op ops)
  obtain d u where op: "op = (d, u)" by (cases op)
  let ?c' = "map (\<lambda>x. if docKey x = docKey d then applySet u x else x) c"
  obtain r where r: "r \<in> set c" "docKey r = docKey d" "applySet u r \<noteq> r"
    using Cons.prems(3) op by auto
  have wk: "keepsKey d u" using Cons.prems(3) op by simp
  have step: "updateOne d u (c, res)
      = (?c', res\<lparr>matchedCount := matchedCount res + 1, modifiedCount := modifiedCount res + 1\<rparr>)"
    using updateOne_existing [OF Cons.prems(1) r(1) r(2), of u res] r(3) by simp
  have keys: "map docKey ?c' = map docKey c"
    using wk by (auto simp: docKey_applySet)
  have dist: "distinct (map docKey ?c')"
    unfolding keys by (rule Cons.prems(1))
  have rest: "\<forall>op' \<in> set ops. keepsKey (fst op') (snd op')
      \<and> (\<exists>r \<in> set ?c'. docKey r = docKey (fst op') \<and> applySet (snd op') r \<noteq> r)"
  proof
    fix op' assume d': "op' \<in> set ops"
    then have ne: "docKey (fst op') \<noteq> docKey d" using Cons.prems(2) op by (auto simp: image_iff)
    obtain r' where r': "r' \<in> set c" "docKey r' = docKey (fst op')" "applySet (snd op') r' \<noteq> r'"
      using Cons.prems(3) d' by auto
    have "r' \<in> set ?c'"
      using r' ne by (auto simp: image_iff intro!: bexI [of _ r'])
    then show "keepsKey (fst op') (snd op')
        \<and> (\<exists>r \<in> set ?c'. docKey r = docKey (fst op') \<and> applySet (snd op') r \<noteq> r)"
      using r' Cons.prems(3) d' by auto
  qed
  have "distinct (map (\<lambda>op. docKey (fst op)) ops)" using Cons.prems(2) by simp
  from Cons.IH [OF dist this rest] step op show ?case by simp
qed

lemma castable_fst:
  "\<not> list_ex (\<lambda>d. castUpdate p k d = None) docs \<Longrightarrow> map fst (castable p k docs) = docs"
  by (induction docs) (simp_all split: option.splits)

lemma castable_member:
  "op \<in> set (castable p k docs) \<Longrightarrow> fst op \<in> set docs \<and> castUpdate p k (fst op) = Some (snd op)"
proof (induction docs)
  case Nil
  then show ?case by simp
next
  case (Cons d docs)
  show ?case
  proof (cases "castUpdate p k d")
    case None
    then show ?thesis using Cons by simp
  next
    case (Some u)
    then have "op = (d, u) \<or> op \<in> set (castable p k docs)"
      using Cons.prems by simp
    then show ?thesis using Cons.IH Some by auto
  qed
qed

lemma changesExisting_cast:
  "changesExisting p k coll d \<Longrightarrow> castUpdate p k d \<noteq> None"
  by (simp add: changesExisting_def split: option.splits)

lemma changesExisting_op:
  assumes "changesExisting p k coll d" "castUpdate p k d = Some u"
  shows "keepsKey d u \<and> (\<exists>r \<in> set coll. docKey r = docKey d \<and> applySet u r \<noteq> r)"
  using assms by (simp add: changesExisting_def list_ex_iff)

lemma upsertDocuments_all_existing:
  assumes unique: "distinct (map docKey coll)" and batch: "distinct (map docKey docs)"
    and existing: "list_all (changesExisting p k coll) docs"
  shows "snd (upsertDocuments p k coll docs) = Inr (2 * length docs)"
proof (cases "docs = []")
  case True
  then show ?thesis by (simp add: upsertDocuments_def)
next
  case False
  let ?ops = "castable p k docs"
  have all: "\<not> list_ex (\<lambda>d. castUpdate p k d = None) docs"
    using existing changesExisting_cast [of p k coll] by (simp add: list_ex_iff list_all_iff)
  have fst: "map fst ?ops = docs"
    using all by (rule castable_fst)
  have len: "length ?ops = length docs"
  proof -
    have "length (map fst ?ops) = length docs" by (simp only: fst)
    then show ?thesis by simp
  qed
  have keys: "map (\<lambda>op. docKey (fst op)) ?ops = map docKey docs"
  proof -
    have "map docKey (map fst ?ops) = map docKey docs" by (simp only: fst)
    then show ?thesis by (simp add: comp_def)
  qed
  have dist: "distinct (map (\<lambda>op. docKey (fst op)) ?ops)"
    unfolding keys by (rule batch)
  have ops: "\<forall>op \<in> set ?ops. keepsKey (fst op) (snd op)
      \<and> (\<exists>r \<in> set coll. docKey r = docKey (fst op) \<and> applySet (snd op) r \<noteq> r)"
  proof
    fix op assume "op \<in> set ?ops"
    then have m: "fst op \<in> set docs" and c: "castUpdate p k (fst op) = Some (snd op)"
      using castable_member [of op p k docs] by simp_all
    have "changesExisting p k coll (fst op)"
      using existing m by (simp add: list_all_iff)
    then show "keepsKey (fst op) (snd op)
      \<and> (\<exists>r \<in> set coll. docKey r = docKey (fst op) \<and> applySet (snd op) r \<noteq> r)"
      using c by (rule changesExisting_op)
  qed
  have "snd (bulkWrite ?ops coll)
          = noWrites\<lparr>matchedCount := matchedCount noWrites + length ?ops,
                      modifiedCount := modifiedCount noWrites + length ?ops\<rparr>"
    unfolding bulkWrite_def using unique dist ops by (rule bulkWrite_all_existing)
  then have "snd (bulkWrite ?ops coll)
          = \<lparr>upsertedCount = 0, modifiedCount = length docs, matchedCount = length docs\<rparr>"
    by (simp add: noWrites_def len)
  then show ?thesis
    using False all by (simp add: upsertDocuments_def split_beta)
qed

lemma mapAll_length: "mapAll f xs = Inr ys \<Longrightarrow> length ys = length xs"
  by (induction xs arbitrary: ys) (auto split: sum.splits)

text \<open>
  C10, as the code has it. The number \<open>upsertDocuments\<close> returns is \<open>upsertedCount +
  modifiedCount + matchedCount\<close>, and an update that changes the record it matches is
  counted both as matched and as modified. So when a sync of one configured kind pulls \<open>n\<close>
  records whose mapped documents have distinct keys, all pass the cast of the library, and
  each changes a record the collection already holds, the writer returns \<open>2n\<close> and the
  summary entry of the kind is \<open>{pulled: n, saved: 2n}\<close>: saved is greater than pulled
  whenever a record was pulled.
\<close>

theorem syncShopResources_saved_twice_pulled:
  assumes cfg: "resourceConfig resource = Own k"
    and fetched: "fetchPaginatedResource newURL http sh (config_path k) (config_dataKey k) (config_params k)
                    = Some (issued, Inr raw)"
    and maps: "mapAll (\<lambda>item. config_map k rt item (shop_id sh)) raw = Inr docs"
    and unique: "distinct (map docKey (modelOf k st))"
    and batch: "distinct (map docKey (map ownFields docs))"
    and existing: "list_all (changesExisting p k (modelOf k st)) (map ownFields docs)"
  shows "snd (upsertDocuments p k (modelOf k st) (map ownFields docs)) = Inr (2 * length raw)
    \<and> (\<exists>st'. syncShopResources newURL http p rt sh [resource] st
              = Some (st', Inr [(resource, Synced (length raw) (2 * length raw))]))
    \<and> (raw \<noteq> [] \<longrightarrow> length raw < 2 * length raw)"
proof -
  have len: "length docs = length raw"
    using maps by (rule mapAll_length)
  have count: "snd (upsertDocuments p k (modelOf k st) (map ownFields docs)) = Inr (2 * length raw)"
    using upsertDocuments_all_existing [OF unique batch existing] len by simp
  obtain coll where up: "upsertDocuments p k (modelOf k st) (map ownFields docs) = (coll, Inr (2 * length raw))"
    using count by (cases "upsertDocuments p k (modelOf k st) (map ownFields docs)") simp
  have "syncShopResources newURL http p rt sh [resource] st
          = Some (setModel k coll st, Inr [(resource, Synced (length raw) (2 * length raw))])"
    using cfg fetched maps up by (simp add: syncShopResources_def)
  then show ?thesis using count by (cases raw) auto
qed

theorem syncShopResources_saved_twice_pulled_witness:
  "resourceConfig ''products'' = Own Products
   \<and> fetchPaginatedResource fixtureURL fixtureProductTransport fixtureShop ''products'' ''products'' []
       = Some ([pageRequest fixtureShop ''acme-store.myshopify.com'' ''products'' [] None],
               Inr fixtureRawProducts)
   \<and> mapAll (\<lambda>item. products_map fixtureRuntime item fixtureShopId) fixtureRawProducts
       = Inr (map (\<lambda>item. JObj (mapped (products_map fixtureRuntime item fixtureShopId))) fixtureRawProducts)
   \<and> list_all (changesExisting fixturePersistence Products fixtureProductRecords)
        (map (\<lambda>item. mapped (products_map fixtureRuntime item fixtureShopId)) fixtureRawProducts)
   \<and> snd (upsertDocuments fixturePersistence Products fixtureProductRecords
        (map (\<lambda>item. mapped (products_map fixtureRuntime item fixtureShopId)) fixtureRawProducts)) = Inr 4
   \<and> (\<exists>st'. syncShopResources fixtureURL fixtureProductTransport fixturePersistence fixtureRuntime
                fixtureShop [''products''] fixtureStore
              = Some (st', Inr [(''products'', Synced 2 4)]))"
proof -
  let ?docs = "map (\<lambda>item. JObj (mapped (products_map fixtureRuntime item fixtureShopId))) fixtureRawProducts"
  have own: "map ownFields ?docs
      = map (\<lambda>item. mapped (products_map fixtureRuntime item fixtureShopId)) fixtureRawProducts"
    by (simp add: ownFields_def comp_def)
  have cfg: "resourceConfig ''products'' = Own Products"
    by code_simp
  have fetched: "fetchPaginatedResource fixtureURL fixtureProductTransport fixtureShop
        (config_path Products) (config_dataKey Products) (config_params Products)
      = Some ([pageRequest fixtureShop ''acme-store.myshopify.com'' ''products'' [] None],
              Inr fixtureRawProducts)"
    by code_simp
  have maps: "mapAll (\<lambda>item. config_map Products fixtureRuntime item (shop_id fixtureShop)) fixtureRawProducts
      = Inr ?docs"
    by code_simp
  have unique: "distinct (map docKey (modelOf Products fixtureStore))"
    by code_simp
  have batch: "distinct (map docKey (map ownFields ?docs))"
    by code_simp
  have existing: "list_all (changesExisting fixturePersistence Products (modelOf Products fixtureStore))
      (map ownFields ?docs)"
    by code_simp
  have store: "modelOf Products fixtureStore = fixtureProductRecords"
    by (simp add: fixtureStore_def)
  have len: "length fixtureRawProducts = 2"
    by (simp add: fixtureRawProducts_def)
  have id: "shop_id fixtureShop = fixtureShopId"
    by (simp add: fixtureShop_def)
  have res: "snd (upsertDocuments fixturePersistence Products (modelOf Products fixtureStore) (map ownFields ?docs))
        = Inr (2 * length fixtureRawProducts)
      \<and> (\<exists>st'. syncShopResources fixtureURL fixtureProductTransport fixturePersistence fixtureRuntime
                fixtureShop [''products''] fixtureStore
              = Some (st', Inr [(''products'', Synced (length fixtureRawProducts) (2 * length fixtureRawProducts))]))"
    using syncShopResources_saved_twice_pulled [OF cfg fetched maps unique batch existing]
    by (elim conjE) (intro conjI; assumption)
  have res': "snd (upsertDocuments fixturePersistence Products fixtureProductRecords
        (map (\<lambda>item. mapped (products_map fixtureRuntime item fixtureShopId)) fixtureRawProducts)) = Inr 4
      \<and> (\<exists>st'. syncShopResources fixtureURL fixtureProductTransport fixturePersistence fixtureRuntime
                fixtureShop [''products''] fixtureStore
              = Some (st', Inr [(''products'', Synced 2 4)]))"
    using res unfolding own store len by simp
  have fetched': "fetchPaginatedResource fixtureURL fixtureProductTransport fixtureShop ''products'' ''products'' []
       = Some ([pageRequest fixtureShop ''acme-store.myshopify.com'' ''products'' [] None],
               Inr fixtureRawProducts)"
    using fetched by simp
  have maps': "mapAll (\<lambda>item. products_map fixtureRuntime item fixtureShopId) fixtureRawProducts = Inr ?docs"
    using maps by (simp add: id)
  have existing': "list_all (changesExisting fixturePersistence Products fixtureProductRecords)
        (map (\<lambda>item. mapped (products_map fixtureRuntime item fixtureShopId)) fixtureRawProducts)"
    using existing unfolding own store .
  from cfg fetched' maps' existing' res' show ?thesis
    by (elim conjE) (intro conjI; assumption)
qed

text \<open>
  The claim as the specification words it, that \<open>n\<close> documents which all exist already
  with other field values count \<open>2n\<close>, fails where a document does not pass the cast. The
  store holds an order with the total 19.99; the platform lists that order with the total 5
  and a line item whose quantity is the text \<open>lots\<close>, which the schema cannot take as a
  number. The mapper returns a document of the record's key with another total; the writer
  returns 0, the record is as it was, and the summary says one pulled, none saved.
\<close>

theorem upsertDocuments_uncastable_counterexample:
  "recordsOf (mapped (orders_map fixtureRuntime fixtureOrderTextQuantity fixtureShopId)) (orders fixtureOrderStore)
     = [[(''shop'', fixtureShopId), (''shopifyId'', JStr ''1001''), (''totalPrice'', JNum (Finite 19.99))]]
   \<and> docField (mapped (orders_map fixtureRuntime fixtureOrderTextQuantity fixtureShopId)) ''totalPrice''
       = JNum (Finite 5)
   \<and> upsertDocuments fixturePersistence Orders (orders fixtureOrderStore)
        [mapped (orders_map fixtureRuntime fixtureOrderTextQuantity fixtureShopId)]
       = (orders fixtureOrderStore, Inr 0)
   \<and> syncShopResources fixtureURL fixtureTextOrderTransport fixturePersistence fixtureRuntime
        fixtureShop [''orders''] fixtureOrderStore
       = Some (fixtureOrderStore, Inr [(''orders'', Synced 1 0)])"
  by code_simp

lemma upsertDocuments_single_cast:
  "castUpdate p k d = Some u \<Longrightarrow>
   upsertDocuments p k c [d] = (fst (updateOne d u (c, noWrites)),
     Inr (upsertedCount (snd (updateOne d u (c, noWrites)))
        + modifiedCount (snd (updateOne d u (c, noWrites)))
        + matchedCount (snd (updateOne d u (c, noWrites)))))"
  by (simp add: upsertDocuments_def bulkWrite_def split_beta)

lemma upsertDocuments_single_uncast:
  "castUpdate p k d = None \<Longrightarrow>
   upsertDocuments p k c [d] = (c, if rejectOnCastError p then Inl CastError else Inr 0)"
  by (simp add: upsertDocuments_def bulkWrite_def noWrites_def)

lemma recordsOf_updated:
  assumes "distinct (map docKey c)" "r \<in> set c" "docKey r = K" "docKey (f r) = K"
  shows "filter (\<lambda>x. docKey x = K) (map (\<lambda>x. if docKey x = K then f x else x) c) = [f r]"
  using assms
proof (induction c)
  case Nil
  then show ?case by simp
next
  case (Cons x c)
  show ?case
  proof (cases "docKey x = K")
    case True
    then have x: "x = r" using Cons.prems by (auto simp: image_iff)
    have "\<forall>y \<in> set c. docKey y \<noteq> K"
      using Cons.prems(1) True by (auto simp: image_iff)
    then have "filter (\<lambda>x. docKey x = K) (map (\<lambda>x. if docKey x = K then f x else x) c) = []"
      by (auto simp: filter_empty_conv)
    then show ?thesis using True x Cons.prems(4) by simp
  next
    case False
    then have "r \<in> set c" using Cons.prems by auto
    then show ?thesis using Cons False by simp
  qed
qed

lemma recordsOf_singleton_member:
  "recordsOf d c = [r] \<Longrightarrow> r \<in> set c \<and> docKey r = docKey d"
proof -
  assume h: "recordsOf d c = [r]"
  have "r \<in> set (filter (\<lambda>x. docKey x = docKey d) c)"
    using h by (simp add: recordsOf_def)
  then show ?thesis by simp
qed

lemma recordsOf_unique:
  assumes "distinct (map docKey c)" "r \<in> set c" "docKey r = K"
  shows "filter (\<lambda>x. docKey x = K) c = [r]"
  using assms
proof (induction c)
  case Nil
  then show ?case by simp
next
  case (Cons x c)
  show ?case
  proof (cases "docKey x = K")
    case True
    then have x: "x = r" using Cons.prems by (auto simp: image_iff)
    have "\<forall>y \<in> set c. docKey y \<noteq> K"
      using Cons.prems(1) True by (auto simp: image_iff)
    then have "filter (\<lambda>x. docKey x = K) c = []"
      by (auto simp: filter_empty_conv)
    then show ?thesis using True x by simp
  next
    case False
    then have "r \<in> set c" using Cons.prems by auto
    then show ?thesis using Cons False by simp
  qed
qed

lemma upsert_existing:
  assumes dist: "distinct (map docKey c)" and cast: "castUpdate p k d = Some u"
    and wk: "keepsKey d u" and r: "recordsOf d c = [r]"
  shows "recordsOf d (fst (upsertDocuments p k c [d])) = [applySet u r]
         \<and> distinct (map docKey (fst (upsertDocuments p k c [d])))"
proof -
  let ?c' = "map (\<lambda>x. if docKey x = docKey d then applySet u x else x) c"
  have mem: "r \<in> set c" "docKey r = docKey d"
    using recordsOf_singleton_member [OF r] by simp_all
  have c': "fst (upsertDocuments p k c [d]) = ?c'"
    using updateOne_existing [OF dist mem, of u noWrites]
    by (simp add: upsertDocuments_single_cast [OF cast])
  have keys: "map docKey ?c' = map docKey c"
    using wk by (auto simp: docKey_applySet)
  have "recordsOf d ?c' = [applySet u r]"
    unfolding recordsOf_def
    using recordsOf_updated [OF dist mem, of "applySet u"] docKey_applySet [OF wk]
    by simp
  moreover have "distinct (map docKey ?c')"
    unfolding keys by (rule dist)
  ultimately show ?thesis unfolding c' by simp
qed

lemma upsert_leaves_one:
  assumes dist: "distinct (map docKey c)" and cast: "castUpdate p k d = Some u" and wk: "keepsKey d u"
  shows "(\<exists>r. recordsOf d (fst (upsertDocuments p k c [d])) = [r]
            \<and> (\<forall>f v. map_of u f = Some v \<longrightarrow> map_of r f = Some v))
         \<and> distinct (map docKey (fst (upsertDocuments p k c [d])))"
proof -
  have du: "distinct (map fst u)" using wk by (simp add: keepsKey_def)
  have holds: "\<forall>f v. map_of u f = Some v \<longrightarrow> map_of (applySet u r) f = Some v" for r
    by (simp add: map_of_applySet [OF du])
  show ?thesis
  proof (cases "\<exists>r \<in> set c. docKey r = docKey d")
    case True
    then obtain r where r: "r \<in> set c" "docKey r = docKey d" by blast
    have "recordsOf d c = [r]"
      unfolding recordsOf_def using dist r by (rule recordsOf_unique)
    then show ?thesis using upsert_existing [OF dist cast wk, of r] holds [of r] by blast
  next
    case False
    then have fresh: "\<forall>r \<in> set c. docKey r \<noteq> docKey d" by blast
    let ?n = "applySet u [(''shop'', docField d ''shop''), (''shopifyId'', docField d ''shopifyId'')]"
    have k: "docKey ?n = docKey d" using wk by (rule docKey_applySet)
    have c': "fst (upsertDocuments p k c [d]) = c @ [?n]"
      using updateOne_absent [OF fresh, of u noWrites] by (simp add: upsertDocuments_single_cast [OF cast])
    have "filter (\<lambda>r. docKey r = docKey d) c = []"
      using fresh by (simp add: filter_empty_conv)
    then have "recordsOf d (c @ [?n]) = [?n]"
      using k by (simp add: recordsOf_def)
    moreover have "distinct (map docKey (c @ [?n]))"
      using dist fresh k by (auto simp: image_iff)
    ultimately show ?thesis unfolding c' using holds by blast
  qed
qed

text \<open>
  C2, as the code has it. The update is \<open>{$set: doc}\<close>, a merge, not a replacement, and the
  library writes only what it can cast. Two documents of one key are upserted one after the
  other into a collection whose records have distinct keys (the unique index); the first
  passes the cast, with an update that keeps its key. Then after the first write the
  collection has exactly one record of the key, holding every field of the first update.
  If the second document passes the cast too, there is again exactly one record of the key;
  every field the second update sets holds the second value, and every other field keeps
  what the first write left. If the second document does not pass the cast, the second
  write changes nothing.
\<close>

theorem upsert_twice_sets_fields:
  assumes unique: "distinct (map docKey coll)"
    and cast1: "castUpdate p k d1 = Some u1" and keeps1: "keepsKey d1 u1"
    and same: "docKey d1 = docKey d2"
  shows "\<exists>r1.
      recordsOf d1 (fst (upsertDocuments p k coll [d1])) = [r1]
    \<and> (\<forall>f v. map_of u1 f = Some v \<longrightarrow> map_of r1 f = Some v)
    \<and> (\<forall>u2. castUpdate p k d2 = Some u2 \<and> keepsKey d2 u2 \<longrightarrow>
          (\<exists>r2. recordsOf d2 (fst (upsertDocuments p k (fst (upsertDocuments p k coll [d1])) [d2])) = [r2]
              \<and> (\<forall>f. map_of r2 f = (case map_of u2 f of None \<Rightarrow> map_of r1 f | Some v \<Rightarrow> Some v))))
    \<and> (castUpdate p k d2 = None \<longrightarrow>
          fst (upsertDocuments p k (fst (upsertDocuments p k coll [d1])) [d2])
            = fst (upsertDocuments p k coll [d1]))"
proof -
  let ?c1 = "fst (upsertDocuments p k coll [d1])"
  obtain r1 where r1: "recordsOf d1 ?c1 = [r1]"
    and first: "\<forall>f v. map_of u1 f = Some v \<longrightarrow> map_of r1 f = Some v"
    and dist: "distinct (map docKey ?c1)"
    using upsert_leaves_one [OF unique cast1 keeps1] by blast
  have r1': "recordsOf d2 ?c1 = [r1]"
    using r1 same by (simp add: recordsOf_def)
  have second: "\<exists>r2. recordsOf d2 (fst (upsertDocuments p k ?c1 [d2])) = [r2]
              \<and> (\<forall>f. map_of r2 f = (case map_of u2 f of None \<Rightarrow> map_of r1 f | Some v \<Rightarrow> Some v))"
    if c2: "castUpdate p k d2 = Some u2" and k2: "keepsKey d2 u2" for u2
  proof -
    have "recordsOf d2 (fst (upsertDocuments p k ?c1 [d2])) = [applySet u2 r1]"
      using upsert_existing [OF dist c2 k2 r1'] by simp
    moreover have "\<forall>f. map_of (applySet u2 r1) f
        = (case map_of u2 f of None \<Rightarrow> map_of r1 f | Some v \<Rightarrow> Some v)"
      using k2 by (simp add: keepsKey_def map_of_applySet)
    ultimately show ?thesis by blast
  qed
  have dropped: "castUpdate p k d2 = None \<longrightarrow> fst (upsertDocuments p k ?c1 [d2]) = ?c1"
    by (simp add: upsertDocuments_single_uncast)
  have all2: "\<forall>u2. castUpdate p k d2 = Some u2 \<and> keepsKey d2 u2 \<longrightarrow>
          (\<exists>r2. recordsOf d2 (fst (upsertDocuments p k ?c1 [d2])) = [r2]
              \<and> (\<forall>f. map_of r2 f = (case map_of u2 f of None \<Rightarrow> map_of r1 f | Some v \<Rightarrow> Some v)))"
    by (intro allI impI) (elim conjE, rule second)
  show ?thesis
    by (rule exI [of _ r1]) (intro conjI r1 first all2 dropped)
qed

theorem upsert_twice_sets_fields_witness:
  "distinct (map docKey ([] :: collection))
   \<and> castUpdate fixturePersistence Customers (mapped (customers_map fixtureRuntime fixtureCustomerV1 fixtureShopId))
       = Some (filter (\<lambda>kv. snd kv \<noteq> JUndefined) (mapped (customers_map fixtureRuntime fixtureCustomerV1 fixtureShopId)))
   \<and> keepsKey (mapped (customers_map fixtureRuntime fixtureCustomerV1 fixtureShopId))
       (filter (\<lambda>kv. snd kv \<noteq> JUndefined) (mapped (customers_map fixtureRuntime fixtureCustomerV1 fixtureShopId)))
   \<and> docKey (mapped (customers_map fixtureRuntime fixtureCustomerV1 fixtureShopId))
       = docKey (mapped (customers_map fixtureRuntime fixtureCustomerV2 fixtureShopId))
   \<and> (\<exists>r1. recordsOf (mapped (customers_map fixtureRuntime fixtureCustomerV1 fixtureShopId))
              (fst (upsertDocuments fixturePersistence Customers []
                 [mapped (customers_map fixtureRuntime fixtureCustomerV1 fixtureShopId)])) = [r1]
          \<and> map_of r1 ''totalSpent'' = Some (JNum (Finite 19.99)))"
proof -
  let ?d1 = "mapped (customers_map fixtureRuntime fixtureCustomerV1 fixtureShopId)"
  let ?d2 = "mapped (customers_map fixtureRuntime fixtureCustomerV2 fixtureShopId)"
  let ?u1 = "filter (\<lambda>kv. snd kv \<noteq> JUndefined) ?d1"
  have unique: "distinct (map docKey ([] :: collection))"
    by simp
  have cast1: "castUpdate fixturePersistence Customers ?d1 = Some ?u1"
    by code_simp
  have keeps1: "keepsKey ?d1 ?u1"
    by code_simp
  have same: "docKey ?d1 = docKey ?d2"
    by code_simp
  have spent: "map_of ?u1 ''totalSpent'' = Some (JNum (Finite 19.99))"
    by code_simp
  obtain r1 where r1: "recordsOf ?d1 (fst (upsertDocuments fixturePersistence Customers [] [?d1])) = [r1]"
    and fields: "\<forall>f v. map_of ?u1 f = Some v \<longrightarrow> map_of r1 f = Some v"
    using upsert_twice_sets_fields [OF unique cast1 keeps1 same] by blast
  have "map_of r1 ''totalSpent'' = Some (JNum (Finite 19.99))"
    using fields spent by blast
  then show ?thesis using unique cast1 keeps1 same r1 by blast
qed

text \<open>
  The claim as the specification words it (the record holds the second write's values, and
  nothing of the first survives) fails. A customer is mapped and written twice, the second
  time from a record whose \<open>total_spent\<close> is empty, so that the second document's
  \<open>totalSpent\<close> is absent: the record still holds the 19.99 of the first write. And an order
  is mapped and written twice, the second time with the total 5 and a line item whose
  quantity is a text: the second document does not pass the cast, and the record holds the
  total 19.99 of the first write.
\<close>

theorem upsert_replace_counterexample:
  "docField (mapped (customers_map fixtureRuntime fixtureCustomerV2 fixtureShopId)) ''totalSpent'' = JUndefined
  \<and> map (\<lambda>r. docField r ''totalSpent'')
     (recordsOf (mapped (customers_map fixtureRuntime fixtureCustomerV2 fixtureShopId))
        (fst (upsertDocuments fixturePersistence Customers
           (fst (upsertDocuments fixturePersistence Customers []
              [mapped (customers_map fixtureRuntime fixtureCustomerV1 fixtureShopId)]))
           [mapped (customers_map fixtureRuntime fixtureCustomerV2 fixtureShopId)])))
   = [JNum (Finite 19.99)]
  \<and> docField (mapped (orders_map fixtureRuntime fixtureOrderTextQuantity fixtureShopId)) ''totalPrice''
     = JNum (Finite 5)
  \<and> map (\<lambda>r. docField r ''totalPrice'')
     (recordsOf (mapped (orders_map fixtureRuntime fixtureOrderTextQuantity fixtureShopId))
        (fst (upsertDocuments fixturePersistence Orders
           (fst (upsertDocuments fixturePersistence Orders []
              [mapped (orders_map fixtureRuntime fixtureOrder fixtureShopId)]))
           [mapped (orders_map fixtureRuntime fixtureOrderTextQuantity fixtureShopId)])))
   = [JNum (Finite 19.99)]"
  by code_simp

section \<open>Paginator: the pages, in order, one request each\<close>



lemma nextEntry_None_iff:
  "nextEntry h = None \<longleftrightarrow> (\<forall>part \<in> set (split CHR '','' h). \<not> includesStr part relNext)"
  by (auto simp: nextEntry_def find_None_iff)





section \<open>Webhook Normalizer: one event, and the typed write by topic\<close>









section \<open>Events: topics are stored in lower case\<close>

lemma toLowerChar_idem: "toLowerChar (toLowerChar c) = toLowerChar c"
  using of_char_toLowerChar [of c] by (simp add: toLowerChar_def)

lemma toLowerCase_idem: "toLowerCase (toLowerCase s) = toLowerCase s"
  by (simp add: toLowerCase_def toLowerChar_idem)

lemma toLowerCase_all_lower: "list_all (\<lambda>c. \<not> isUpper c) (toLowerCase s)"
  using toLowerCase_no_upper [of s] by (simp add: list_all_iff)

lemma handleWebhook_events:
  "events (fst (handleWebhook p rt topic payload sh st)) = events st @
     [\<lparr>event_shop = shop_id sh, event_topic = toLowerCase topic, event_payload = payload\<rparr>]"
  unfolding handleWebhook_def Let_def by (simp split: sum.splits prod.splits)

lemma eventsPost_events:
  "events (fst (eventsPost validId found userEmail shopId topic payload st)) = events st
   \<or> (\<exists>t. events (fst (eventsPost validId found userEmail shopId topic payload st)) = events st @
         [\<lparr>event_shop = shopId, event_topic = toLowerCase t, event_payload = payload\<rparr>])"
  unfolding eventsPost_def by (auto split: option.splits jsval.splits)

lemma setModel_events: "events (setModel k c st) = events st"
  by (cases k) simp_all

lemma syncLoop_events:
  "syncLoop newURL http p rt sh rs s st = Some (st', outcome) \<Longrightarrow> events st' = events st"
proof (induction rs arbitrary: s st)
  case Nil
  then show ?case by simp
next
  case (Cons r rs)
  show ?case
  proof (cases "resourceConfig r")
    case Absent
    then show ?thesis using Cons by simp
  next
    case Inherited
    then show ?thesis
      using Cons.prems Cons.IH
      by (auto split: option.splits sum.splits if_splits prod.splits)
  next
    case (Own k)
    then show ?thesis
      using Cons.prems Cons.IH
      by (auto simp: setModel_events split: option.splits sum.splits if_splits prod.splits)
  qed
qed

lemma perform_lowercase:
  "lowercaseTopics st \<Longrightarrow> lowercaseTopics (perform newURL p rt st operation)"
proof (cases operation)
  case (Webhook topic payload sh)
  assume "lowercaseTopics st"
  then show ?thesis
    using Webhook handleWebhook_events [of p rt topic payload sh st]
    by (simp add: lowercaseTopics_def toLowerCase_all_lower)
next
  case (CustomEvent validId found userEmail shopId topic payload)
  assume "lowercaseTopics st"
  then show ?thesis
    using CustomEvent eventsPost_events [of validId found userEmail shopId topic payload st]
    by (auto simp: lowercaseTopics_def toLowerCase_all_lower)
next
  case (Sync http sh resources)
  assume "lowercaseTopics st"
  then show ?thesis
    using Sync syncLoop_events [of newURL http p rt sh resources "[]" st]
    by (auto simp: lowercaseTopics_def syncShopResources_def split: option.splits)
qed

text \<open>
  C9. Events are created in two places, \<open>handleWebhook\<close> and the \<open>POST\<close> route of the
  events router, and both lowercase the topic first; a sync writes no event. So an event
  collection whose topics hold no upper-case letter stays so under every run of the
  operations on the store, from the empty collection in particular; and
  \<open>handleWebhook\<close> does for a topic what it does for the topic in lower case: its
  classification does not depend on case.
\<close>

theorem event_topics_lowercase:
  assumes "lowercaseTopics st0"
  shows "lowercaseTopics (foldl (perform newURL p rt) st0 operations)
         \<and> handleWebhook p rt topic payload sh st
             = handleWebhook p rt (toLowerCase topic) payload sh st"
proof -
  have "lowercaseTopics (foldl (perform newURL p rt) st0 operations)"
    using assms by (induction operations arbitrary: st0) (simp_all add: perform_lowercase)
  moreover have "handleWebhook p rt topic payload sh st
             = handleWebhook p rt (toLowerCase topic) payload sh st"
    by (simp add: handleWebhook_def toLowerCase_idem)
  ultimately show ?thesis by simp
qed

theorem event_topics_lowercase_witness:
  "lowercaseTopics emptyStore
   \<and> lowercaseTopics (foldl (perform fixtureURL fixturePersistence fixtureRuntime) emptyStore fixtureOperations)
   \<and> map event_topic (events (foldl (perform fixtureURL fixturePersistence fixtureRuntime) emptyStore fixtureOperations))
       = [''orders/create'', ''cart_viewed'']"
proof -
  have start: "lowercaseTopics emptyStore"
    by (simp add: lowercaseTopics_def emptyStore_def)
  have topics: "map event_topic (events (foldl (perform fixtureURL fixturePersistence fixtureRuntime) emptyStore fixtureOperations))
       = [''orders/create'', ''cart_viewed'']"
    by code_simp
  show ?thesis
    using event_topics_lowercase [OF start, of fixtureURL fixturePersistence fixtureRuntime fixtureOperations] start topics
    by simp
qed

section \<open>Sync Orchestrator: kinds without a configuration\<close>

lemma map_of_setEntry: "map_of (setEntry k v s) = (map_of s)(k \<mapsto> v)"
  by (induction s) (auto simp: fun_eq_iff)

lemma agree_setEntry_absent:
  "resourceConfig r = Absent \<Longrightarrow> agreeOnConfigured s s' \<Longrightarrow> agreeOnConfigured (setEntry r v s) s'"
  by (auto simp: agreeOnConfigured_def map_of_setEntry)

lemma agree_setEntry_both:
  "agreeOnConfigured s s' \<Longrightarrow> agreeOnConfigured (setEntry r v s) (setEntry r v s')"
  by (auto simp: agreeOnConfigured_def map_of_setEntry)

lemma syncLoop_absent_dropped:
  "agreeOnConfigured s s' \<Longrightarrow>
   sameOutcome (syncLoop newURL http p rt sh rs s st)
     (syncLoop newURL http p rt sh (filter (\<lambda>r. resourceConfig r \<noteq> Absent) rs) s' st)"
proof (induction rs arbitrary: s s' st)
  case Nil
  then show ?case by simp
next
  case (Cons r rs)
  show ?case
  proof (cases "resourceConfig r")
    case Absent
    then show ?thesis
      using Cons.IH [OF agree_setEntry_absent [OF Absent Cons.prems]] by simp
  next
    case Inherited
    show ?thesis
    proof (cases "fetchPaginatedResource newURL http sh ''undefined'' ''undefined'' []")
      case None
      then show ?thesis using Inherited by simp
    next
      case (Some res)
      obtain issued outcome where res: "res = (issued, outcome)" by (cases res)
      show ?thesis
      proof (cases outcome)
        case (Inl e)
        then show ?thesis using Inherited Some res by simp
      next
        case (Inr raw)
        then show ?thesis
          using Inherited Some res Cons.IH [OF Cons.prems]
            Cons.IH [OF agree_setEntry_both [OF Cons.prems]]
          by simp
      qed
    qed
  next
    case (Own k)
    show ?thesis
    proof (cases "fetchPaginatedResource newURL http sh (config_path k) (config_dataKey k) (config_params k)")
      case None
      then show ?thesis using Own by simp
    next
      case (Some res)
      obtain issued outcome where res: "res = (issued, outcome)" by (cases res)
      show ?thesis
      proof (cases outcome)
        case (Inl e)
        then show ?thesis using Own Some res by simp
      next
        case (Inr raw)
        then show ?thesis
          using Own Some res Cons.IH [OF agree_setEntry_both [OF Cons.prems]]
          by (simp split: sum.splits prod.splits)
      qed
    qed
  qed
qed

lemma syncLoop_unsupported_entries:
  "syncLoop newURL http p rt sh rs s st = Some (st', Inr m) \<Longrightarrow>
   resourceConfig r = Absent \<Longrightarrow> r \<in> set rs \<or> map_of s r = Some Unsupported \<Longrightarrow>
   map_of m r = Some Unsupported"
proof (induction rs arbitrary: s st)
  case Nil
  then show ?case by simp
next
  case (Cons x rs)
  show ?case
  proof (cases "resourceConfig x")
    case Absent
    have "r \<in> set rs \<or> map_of (setEntry x Unsupported s) r = Some Unsupported"
      using Cons.prems(3) by (auto simp: map_of_setEntry)
    then show ?thesis
      using Cons.IH [of "setEntry x Unsupported s" st] Cons.prems(1,2) Absent by simp
  next
    case Inherited
    then have ne: "x \<noteq> r" using Cons.prems(2) by auto
    then have keep: "\<And>v. r \<in> set rs \<or> map_of (setEntry x v s) r = Some Unsupported"
      "r \<in> set rs \<or> map_of s r = Some Unsupported"
      using Cons.prems(3) by (auto simp: map_of_setEntry)
    show ?thesis
      using Cons.prems(1,2) Inherited Cons.IH [OF _ Cons.prems(2) keep(1)]
        Cons.IH [OF _ Cons.prems(2) keep(2)]
      by (auto split: option.splits sum.splits if_splits prod.splits)
  next
    case (Own k)
    then have ne: "x \<noteq> r" using Cons.prems(2) by auto
    then have keep: "\<And>v. r \<in> set rs \<or> map_of (setEntry x v s) r = Some Unsupported"
      using Cons.prems(3) by (auto simp: map_of_setEntry)
    show ?thesis
      using Cons.prems(1,2) Own Cons.IH [OF _ Cons.prems(2) keep]
      by (auto split: option.splits sum.splits if_splits prod.splits)
  qed
qed

text \<open>
  A kind for which the lookup finds nothing is recorded as unsupported and changes nothing
  else: the run comes out as the run without these kinds does, with the same store and the
  same entries for the configured kinds.
\<close>

lemma syncShopResources_absent_kinds:
  "sameOutcome (syncShopResources newURL http p rt sh rs st)
     (syncShopResources newURL http p rt sh (filter (\<lambda>r. resourceConfig r \<noteq> Absent) rs) st)
   \<and> (syncShopResources newURL http p rt sh rs st = Some (st', Inr m) \<longrightarrow>
        (\<forall>r \<in> set rs. resourceConfig r = Absent \<longrightarrow> map_of m r = Some Unsupported))"
proof -
  have "agreeOnConfigured [] []"
    by (simp add: agreeOnConfigured_def)
  then have "sameOutcome (syncShopResources newURL http p rt sh rs st)
     (syncShopResources newURL http p rt sh (filter (\<lambda>r. resourceConfig r \<noteq> Absent) rs) st)"
    unfolding syncShopResources_def by (rule syncLoop_absent_dropped)
  moreover have "syncShopResources newURL http p rt sh rs st = Some (st', Inr m) \<longrightarrow>
        (\<forall>r \<in> set rs. resourceConfig r = Absent \<longrightarrow> map_of m r = Some Unsupported)"
    unfolding syncShopResources_def using syncLoop_unsupported_entries by blast
  ultimately show ?thesis by simp
qed

lemma fetch_undefined:
  "fetchPaginatedResource fixtureURL fixtureTransport fixtureShop ''undefined'' ''undefined'' []
     = Some ([pageRequest fixtureShop ''acme-store.myshopify.com'' ''undefined'' [] None],
             Inl (buildShopifyError notFound ''acme-store.myshopify.com'' ''undefined''))"
proof -
  have domain: "normalizeShopDomain fixtureURL (shopDomain fixtureShop) = Some ''acme-store.myshopify.com''"
    by code_simp
  have "fixtureTransport (pageRequest fixtureShop ''acme-store.myshopify.com'' ''undefined'' [] None)
          = Inl notFound"
    by (simp add: fixtureTransport_def pageRequest_def)
  then show ?thesis
    unfolding fetchPaginatedResource_def domain
    by (subst fetchPages.simps) simp
qed

text \<open>
  C6. The claim holds of the kinds the lookup does not find, as the lemma above says. It
  fails for a requested kind that names a property of \<open>Object.prototype\<close>: the test
  \<open>!config\<close> does not catch it, since \<open>resourceConfig['constructor']\<close> is a function. For
  the request \<open>['constructor', 'orders']\<close> against the fixture shop, whose transport answers
  404 to the path \<open>undefined.json\<close>, the run ends with the error of that request: there is
  no summary, so no error entry for \<open>constructor\<close>, and the orders are never synced.
\<close>

theorem syncShopResources_inherited_key:
  "resourceConfig ''constructor'' = Inherited
   \<and> syncShopResources fixtureURL fixtureTransport fixturePersistence fixtureRuntime fixtureShop
         [''constructor'', ''orders''] emptyStore
       = Some (emptyStore, Inl (buildShopifyError notFound ''acme-store.myshopify.com'' ''undefined''))
   \<and> status (buildShopifyError notFound ''acme-store.myshopify.com'' ''undefined'') = Some 404"
proof -
  have inherited: "resourceConfig ''constructor'' = Inherited"
    by code_simp
  have "status (buildShopifyError notFound ''acme-store.myshopify.com'' ''undefined'') = Some 404"
    by (simp add: buildShopifyError_def notFound_def Let_def)
  then show ?thesis
    using inherited fetch_undefined by (simp add: syncShopResources_def)
qed

section \<open>Scheduler: which failures pause a tenant\<close>

lemma map_of_mapSet: "map_of (mapSet k v m) = (map_of m)(k \<mapsto> v)"
  by (induction m) (auto simp: fun_eq_iff)

lemma mapSet_nonempty: "mapSet k v m \<noteq> []"
  by (cases m) (auto split: if_splits)

lemma attemptSync_status: "shop_status (fst (attemptSync newURL verify sync now sh)) = shop_status sh"
  by (simp add: attemptSync_def Let_def split: option.splits)

lemma markShopError_snapshot:
  "shop_status (markShopError sh err nowISO) = Paused
   \<and> (\<exists>m. metadata (markShopError sh err nowISO) = Some m \<and> m \<noteq> []
          \<and> map_of m ''lastError'' = Some (message err)
          \<and> map_of m ''lastErrorStatus'' = Some (statusString err)
          \<and> map_of m ''lastErrorAt'' = Some nowISO)"
  by (simp add: markShopError_def map_of_mapSet mapSet_nonempty)

lemma schedulerInvalidDomain_matches: "invalidDomainMessage (message schedulerInvalidDomain)"
  by code_simp

text \<open>
  C3, as the code has it. In a tick, every active tenant is processed, and its failure is
  caught. When the processing of an active tenant fails with an error that carries the
  status 401, 403 or 404, or whose message contains the words \<open>Invalid shop domain\<close> in any
  letter case (as the message of the error for a domain the normalizer rejects does), the
  tenant is saved as paused with a metadata map that holds the message, the status and the
  time of the error. When it fails with any other error, the tenant stays as the attempt
  left it, and active. The test of the message is on its text alone, whatever the failure
  was.
\<close>

theorem scheduler_classifies_failure:
  assumes listed: "sh \<in> set shops" and active: "shop_status sh = Active"
    and failed: "attemptSync newURL verify sync now sh = (sh1, Some err)"
  shows "processShop newURL verify sync now nowISO sh \<in> set (tick newURL verify sync now nowISO shops)
    \<and> (status err = Some 401 \<or> status err = Some 403 \<or> status err = Some 404
         \<or> invalidDomainMessage (message err) \<longrightarrow>
          shop_status (processShop newURL verify sync now nowISO sh) = Paused
        \<and> (\<exists>m. metadata (processShop newURL verify sync now nowISO sh) = Some m \<and> m \<noteq> []
              \<and> map_of m ''lastError'' = Some (message err)
              \<and> map_of m ''lastErrorStatus'' = Some (statusString err)
              \<and> map_of m ''lastErrorAt'' = Some nowISO))
    \<and> (\<not> (status err = Some 401 \<or> status err = Some 403 \<or> status err = Some 404
            \<or> invalidDomainMessage (message err)) \<longrightarrow>
          processShop newURL verify sync now nowISO sh = sh1 \<and> shop_status sh1 = Active)
    \<and> (normalizeShopDomain newURL (shopDomain sh) = None \<longrightarrow> invalidDomainMessage (message err))"
proof -
  have member: "processShop newURL verify sync now nowISO sh \<in> set (tick newURL verify sync now nowISO shops)"
    using listed active by (force simp: tick_def)
  have sh1: "shop_status sh1 = Active"
    using attemptSync_status [of newURL verify sync now sh] failed active by simp
  have paused: "status err = Some 401 \<or> status err = Some 403 \<or> status err = Some 404
         \<or> invalidDomainMessage (message err) \<longrightarrow>
          shop_status (processShop newURL verify sync now nowISO sh) = Paused
        \<and> (\<exists>m. metadata (processShop newURL verify sync now nowISO sh) = Some m \<and> m \<noteq> []
              \<and> map_of m ''lastError'' = Some (message err)
              \<and> map_of m ''lastErrorStatus'' = Some (statusString err)
              \<and> map_of m ''lastErrorAt'' = Some nowISO)"
  proof
    assume c: "status err = Some 401 \<or> status err = Some 403 \<or> status err = Some 404
         \<or> invalidDomainMessage (message err)"
    then have "processShop newURL verify sync now nowISO sh = markShopError sh1 err nowISO"
      using failed by (auto simp: processShop_def)
    then show "shop_status (processShop newURL verify sync now nowISO sh) = Paused
        \<and> (\<exists>m. metadata (processShop newURL verify sync now nowISO sh) = Some m \<and> m \<noteq> []
              \<and> map_of m ''lastError'' = Some (message err)
              \<and> map_of m ''lastErrorStatus'' = Some (statusString err)
              \<and> map_of m ''lastErrorAt'' = Some nowISO)"
      using markShopError_snapshot [of sh1 err nowISO] by simp
  qed
  have kept: "\<not> (status err = Some 401 \<or> status err = Some 403 \<or> status err = Some 404
            \<or> invalidDomainMessage (message err)) \<longrightarrow>
          processShop newURL verify sync now nowISO sh = sh1 \<and> shop_status sh1 = Active"
    using failed sh1 by (simp add: processShop_def)
  have invalid: "normalizeShopDomain newURL (shopDomain sh) = None \<longrightarrow> invalidDomainMessage (message err)"
    using failed schedulerInvalidDomain_matches by (auto simp: attemptSync_def)
  from member paused kept invalid show ?thesis by (intro conjI)
qed

text \<open>
  The fixture tick: the tenant whose verification fails with 401 is paused, with its
  diagnostic snapshot; the tenant whose verification times out stays active; and so does
  that tenant when its verification passes and its sync times out.
\<close>

lemma fixture_attempt_revoked:
  "attemptSync fixtureURL fixtureVerify fixtureSync 1000 fixtureRevokedShop
     = (fixtureRevokedShop, Some (buildShopifyError unauthorized ''revoked-store.myshopify.com'' ''shop''))"
  by code_simp

lemma fixture_attempt_timeout:
  "attemptSync fixtureURL fixtureVerify fixtureSync 1000 fixtureShop
     = (fixtureShop, Some (buildShopifyError timedOut ''acme-store.myshopify.com'' ''shop''))"
  by code_simp

lemma fixture_attempt_sync_timeout:
  "attemptSync fixtureURL fixtureVerified fixtureSync 1000 fixtureShop
     = (fixtureShop, Some (buildShopifyError timedOut ''acme-store.myshopify.com'' ''customers''))"
  by code_simp

lemma fixture_timeout_other:
  "\<not> (status (buildShopifyError timedOut ''acme-store.myshopify.com'' r) = Some 401
      \<or> status (buildShopifyError timedOut ''acme-store.myshopify.com'' r) = Some 403
      \<or> status (buildShopifyError timedOut ''acme-store.myshopify.com'' r) = Some 404
      \<or> invalidDomainMessage (message (buildShopifyError timedOut ''acme-store.myshopify.com'' r)))"
  if "r = ''shop'' \<or> r = ''customers''"
  using that by (elim disjE; hypsubst) code_simp+

lemma fixture_unauthorized_status:
  "status (buildShopifyError unauthorized ''revoked-store.myshopify.com'' ''shop'') = Some 401"
  by code_simp

lemma fixture_unauthorized_statusString:
  "statusString (buildShopifyError unauthorized ''revoked-store.myshopify.com'' ''shop'') = ''401''"
  by code_simp

theorem scheduler_classifies_failure_witness:
  "processShop fixtureURL fixtureVerify fixtureSync 1000 fixtureNowISO fixtureRevokedShop
     \<in> set (tick fixtureURL fixtureVerify fixtureSync 1000 fixtureNowISO fixtureShops)
   \<and> shop_status (processShop fixtureURL fixtureVerify fixtureSync 1000 fixtureNowISO fixtureRevokedShop) = Paused
   \<and> (\<exists>m. metadata (processShop fixtureURL fixtureVerify fixtureSync 1000 fixtureNowISO fixtureRevokedShop) = Some m
          \<and> m \<noteq> [] \<and> map_of m ''lastErrorStatus'' = Some ''401''
          \<and> map_of m ''lastErrorAt'' = Some fixtureNowISO)
   \<and> processShop fixtureURL fixtureVerify fixtureSync 1000 fixtureNowISO fixtureShop
     \<in> set (tick fixtureURL fixtureVerify fixtureSync 1000 fixtureNowISO fixtureShops)
   \<and> shop_status (processShop fixtureURL fixtureVerify fixtureSync 1000 fixtureNowISO fixtureShop) = Active
   \<and> shop_status (processShop fixtureURL fixtureVerified fixtureSync 1000 fixtureNowISO fixtureShop) = Active"
proof -
  let ?e1 = "buildShopifyError unauthorized ''revoked-store.myshopify.com'' ''shop''"
  have listed: "fixtureRevokedShop \<in> set fixtureShops" "fixtureShop \<in> set fixtureShops"
    by (simp_all add: fixtureShops_def)
  have active: "shop_status fixtureRevokedShop = Active" "shop_status fixtureShop = Active"
    by (simp_all add: fixtureRevokedShop_def fixtureShop_def)
  have revoked: "processShop fixtureURL fixtureVerify fixtureSync 1000 fixtureNowISO fixtureRevokedShop
       \<in> set (tick fixtureURL fixtureVerify fixtureSync 1000 fixtureNowISO fixtureShops)
     \<and> shop_status (processShop fixtureURL fixtureVerify fixtureSync 1000 fixtureNowISO fixtureRevokedShop) = Paused
     \<and> (\<exists>m. metadata (processShop fixtureURL fixtureVerify fixtureSync 1000 fixtureNowISO fixtureRevokedShop) = Some m
          \<and> m \<noteq> [] \<and> map_of m ''lastErrorStatus'' = Some ''401''
          \<and> map_of m ''lastErrorAt'' = Some fixtureNowISO)"
    using scheduler_classifies_failure [OF listed(1) active(1) fixture_attempt_revoked, of fixtureNowISO]
      fixture_unauthorized_status fixture_unauthorized_statusString
    by auto
  have timeout: "processShop fixtureURL fixtureVerify fixtureSync 1000 fixtureNowISO fixtureShop
       \<in> set (tick fixtureURL fixtureVerify fixtureSync 1000 fixtureNowISO fixtureShops)
     \<and> shop_status (processShop fixtureURL fixtureVerify fixtureSync 1000 fixtureNowISO fixtureShop) = Active"
    using scheduler_classifies_failure [OF listed(2) active(2) fixture_attempt_timeout, of fixtureNowISO]
      fixture_timeout_other [of "''shop''"]
    by auto
  have sync: "shop_status (processShop fixtureURL fixtureVerified fixtureSync 1000 fixtureNowISO fixtureShop) = Active"
    using scheduler_classifies_failure [OF listed(2) active(2) fixture_attempt_sync_timeout, of fixtureNowISO]
      fixture_timeout_other [of "''customers''"]
    by auto
  from revoked timeout sync show ?thesis
    by (elim conjE) (intro conjI; assumption)
qed

text \<open>
  The claim as the specification words it, that every failure other than a domain that is
  invalid or a status 401, 403 or 404 leaves the tenant active, fails. The third tenant has
  a domain the normalizer accepts; the platform answers its verification with the status
  500 and a body that quotes the words \<open>Invalid shop domain\<close>. The message of the error
  quotes the body, the test of the message succeeds, and the tenant is paused.
\<close>

theorem scheduler_pauses_server_error_counterexample:
  "fixtureFailingShop \<in> set fixtureShops \<and> shop_status fixtureFailingShop = Active
   \<and> normalizeShopDomain fixtureURL (shopDomain fixtureFailingShop) = Some ''xa.myshopify.com''
   \<and> attemptSync fixtureURL fixtureVerify fixtureSync 1000 fixtureFailingShop
       = (fixtureFailingShop, Some (buildShopifyError serverError ''xa.myshopify.com'' ''shop''))
   \<and> status (buildShopifyError serverError ''xa.myshopify.com'' ''shop'') = Some 500
   \<and> shop_status (processShop fixtureURL fixtureVerify fixtureSync 1000 fixtureNowISO fixtureFailingShop) = Paused
   \<and> map shop_status (tick fixtureURL fixtureVerify fixtureSync 1000 fixtureNowISO fixtureShops)
       = [Paused, Active, Paused]"
  by code_simp

end
